theory Spec2Isabelle
  imports Complex_Main
begin

section \<open>Python values and failures\<close>

text \<open>
  Every exception the modelled functions can raise is a value of \<open>error\<close>; a function that
  can raise returns \<open>error + 'a\<close> with \<open>Inl\<close> for the exception.  An \<open>AssertionError\<close>
  carries the message of the failed \<open>assert\<close> (line continuations inside the source's
  message strings are dropped).  \<open>RuntimeError\<close> stands for the shape errors torch raises in
  \<open>reshape\<close>, \<open>view\<close>, \<open>cat\<close>, \<open>stack\<close> and \<open>matmul\<close>.
\<close>

datatype error =
    ZeroDivisionError
  | AssertionError string
  | TypeError
  | IndexError
  | RuntimeError

definition bind_err :: "error + 'a \<Rightarrow> ('a \<Rightarrow> error + 'b) \<Rightarrow> error + 'b" where
  "bind_err r f = (case r of Inl e \<Rightarrow> Inl e | Inr v \<Rightarrow> f v)"

fun those_err :: "(error + 'a) list \<Rightarrow> error + 'a list" where
  \<comment> \<open>The results of a list of calls made in order: the first exception ends the run.\<close>
  "those_err [] = Inr []"
| "those_err (r # rs) = bind_err r (\<lambda>v. bind_err (those_err rs) (\<lambda>vs. Inr (v # vs)))"

definition py_floordiv :: "int \<Rightarrow> int \<Rightarrow> error + int" where
  \<comment> \<open>Python's \<open>a // b\<close> on ints: floor division, raising on a zero divisor.\<close>
  "py_floordiv a b = (if b = 0 then Inl ZeroDivisionError else Inr (a div b))"

definition py_mod :: "nat \<Rightarrow> nat \<Rightarrow> error + nat" where
  \<comment> \<open>Python's \<open>a % b\<close> on non-negative ints.\<close>
  "py_mod a b = (if b = 0 then Inl ZeroDivisionError else Inr (a mod b))"

definition py_index :: "'a list \<Rightarrow> int \<Rightarrow> error + 'a" where
  \<comment> \<open>Python's \<open>xs[i]\<close>; an index from \<open>-len(xs)\<close> to \<open>-1\<close> counts from the end.\<close>
  "py_index xs i =
     (if 0 \<le> i \<and> i < int (length xs) then Inr (xs ! nat i)
      else if i < 0 \<and> - int (length xs) \<le> i then Inr (xs ! nat (int (length xs) + i))
      else Inl IndexError)"


section \<open>Tensors\<close>

text \<open>
  A two-dimensional torch tensor is its shape and its contiguous row-major storage.
  Entry \<open>[b, c]\<close> is stored at position \<open>b * shape1 + c\<close>.
\<close>

record tensor =
  shape0 :: nat
  shape1 :: nat
  dat :: "real list"

definition at2 :: "tensor \<Rightarrow> nat \<Rightarrow> nat \<Rightarrow> real" where
  "at2 x b c = dat x ! (b * shape1 x + c)"

definition row :: "tensor \<Rightarrow> nat \<Rightarrow> real list" where
  "row x b = take (shape1 x) (drop (b * shape1 x) (dat x))"

definition column :: "tensor \<Rightarrow> nat \<Rightarrow> real list" where
  \<comment> \<open>Row \<open>c\<close> of \<open>x.T\<close>.\<close>
  "column x c = map (\<lambda>b. at2 x b c) [0..<shape0 x]"

definition cat1 :: "tensor list \<Rightarrow> error + tensor" where
  \<comment> \<open>\<open>torch.cat(ts, axis=1)\<close>: needs a non-empty list of tensors with equally many rows.\<close>
  "cat1 ts =
     (case ts of
        [] \<Rightarrow> Inl RuntimeError
      | t # rest \<Rightarrow>
          if list_all (\<lambda>u. shape0 u = shape0 t) rest
          then Inr \<lparr>shape0 = shape0 t,
                    shape1 = sum_list (map shape1 ts),
                    dat = concat (map (\<lambda>b. concat (map (\<lambda>u. row u b) ts)) [0..<shape0 t])\<rparr>
          else Inl RuntimeError)"


section \<open>Diffusion\<close>

text \<open>
  The module owns one parameter, \<open>diffusion_time\<close>, a tensor of one float32 number.  A
  float32 value is not-a-number, an infinity, or a finite number, given here by the real
  number it stands for.  Comparisons with a not-a-number are false.  The functions of
  \<open>lib.geometry\<close> that \<open>forward\<close> calls are arguments of the model: \<open>ceig\<close> for
  \<open>compute_eigendecomposition\<close>, \<open>vdiff\<close> for \<open>vector_diffusion\<close> and \<open>sdiff\<close> for
  \<open>scalar_diffusion\<close>.  The source does not use the argument \<open>normalise\<close>.  Each call of
  \<open>compute_eigendecomposition\<close> is recorded, with its argument, at the end of a trace that
  is threaded through \<open>forward\<close>.
\<close>

datatype f32 = NaN | NInf | Fin real | PInf

definition f32_ge :: "f32 \<Rightarrow> real \<Rightarrow> bool" where
  \<comment> \<open>\<open>v >= r\<close>\<close>
  "f32_ge v r = (case v of NaN \<Rightarrow> False | NInf \<Rightarrow> False | Fin a \<Rightarrow> r \<le> a | PInf \<Rightarrow> True)"

definition f32_gt :: "f32 \<Rightarrow> real \<Rightarrow> bool" where
  \<comment> \<open>\<open>v > r\<close>\<close>
  "f32_gt v r = (case v of NaN \<Rightarrow> False | NInf \<Rightarrow> False | Fin a \<Rightarrow> r < a | PInf \<Rightarrow> True)"

record Diffusion =
  diffusion_time :: f32

datatype 'e dval = Lap "tensor option" | Eig 'e

type_synonym 'e pardict = "string \<rightharpoonup> 'e dval"

definition Diffusion_init :: "f32 \<Rightarrow> Diffusion" where
  "Diffusion_init ic = \<lparr>diffusion_time = ic\<rparr>"

definition clamp_min :: "f32 \<Rightarrow> real \<Rightarrow> f32" where
  \<comment> \<open>\<open>torch.clamp(v, min=lo)\<close>: the larger of \<open>v\<close> and \<open>lo\<close>; a not-a-number stays one.\<close>
  "clamp_min v lo =
     (case v of NaN \<Rightarrow> NaN | NInf \<Rightarrow> Fin lo | Fin a \<Rightarrow> Fin (max a lo) | PInf \<Rightarrow> PInf)"

definition time_floor :: real where
  \<comment> \<open>The bound \<open>1e-8\<close> as the float32 tensor takes it: the float32 number nearest to it.\<close>
  "time_floor = 11258999 / 2 ^ 50"

definition eig_into :: "(tensor \<Rightarrow> 'e \<times> 'e) \<Rightarrow> string \<Rightarrow> tensor \<Rightarrow> 'e pardict \<Rightarrow> tensor list
    \<Rightarrow> 'e pardict \<times> tensor list" where
  \<comment> \<open>\<open>if method=='spectral' and 'evals' not in par.keys(): par['evals'], par['evecs'] = ...\<close>\<close>
  "eig_into ceig method M par trace =
     (if method = ''spectral'' \<and> par ''evals'' = None
      then (par(''evals'' \<mapsto> Eig (fst (ceig M)), ''evecs'' \<mapsto> Eig (snd (ceig M))), trace @ [M])
      else (par, trace))"

definition Diffusion_forward ::
  "(tensor \<Rightarrow> 'e \<times> 'e)
   \<Rightarrow> (tensor \<Rightarrow> f32 \<Rightarrow> string \<Rightarrow> 'e pardict \<Rightarrow> error + tensor)
   \<Rightarrow> (real list \<Rightarrow> f32 \<Rightarrow> string \<Rightarrow> 'e pardict \<Rightarrow> error + tensor)
   \<Rightarrow> Diffusion \<Rightarrow> tensor list \<Rightarrow> tensor \<Rightarrow> tensor \<Rightarrow> tensor option \<Rightarrow> string
   \<Rightarrow> Diffusion \<times> tensor list \<times> (error + tensor)" where
  "Diffusion_forward ceig vdiff sdiff self trace x L Lc method =
     (let par_L = [''L'' \<mapsto> Lap (Some L)];
          par_Lc = [''Lc'' \<mapsto> Lap Lc];
          self' = self\<lparr>diffusion_time := clamp_min (diffusion_time self) time_floor\<rparr>;
          t = diffusion_time self'
      in case Lc of
           Some Lc' \<Rightarrow>
             (let (par_Lc', trace') = eig_into ceig method Lc' par_Lc trace
              in (self', trace',
                  bind_err (py_mod (shape0 x * shape1 x) (shape0 Lc')) (\<lambda>r.
                    if r = 0 then vdiff x t method par_Lc'
                    else Inl (AssertionError
                      ''Data dimension must be an integer multiple of the dimensions of the connection Laplacian!''))))
         | None \<Rightarrow>
             (let (par_L', trace') = eig_into ceig method L par_L trace
              in (self', trace',
                  bind_err (those_err (map (\<lambda>xc. sdiff xc t method par_L')
                                           (map (column x) [0..<shape1 x])))
                           cat1)))"


section \<open>setup_layers\<close>

text \<open>
  The entry \<open>batch_norm\<close> of the parameter dictionary is handed to the constructor of the
  multilayer perceptron unread; its type is left open.
\<close>

record 'n params =
  signal_dim :: int
  emb_dim :: int
  order :: nat
  depth :: nat
  inner_product_features :: bool
  hidden_channels :: int
  out_channels :: int
  n_lin_layers :: int
  dropout :: real
  batch_norm :: 'n
  bias :: bool

text \<open>
  The layers are built by constructors; the model records the arguments each constructor
  receives.  The constructors \<open>GCNConv\<close> and \<open>MLP\<close> of torch_geometric may reject their
  arguments: \<open>gcn_err\<close> and \<open>mlp_err\<close>, arguments of the model, give the exception raised, if
  any.  \<open>InnerProductFeatures(C, D)\<close> builds \<open>C\<close> maps \<open>nn.Linear(D, D)\<close>, which torch rejects
  for a negative \<open>D\<close>.  \<open>Diffusion()\<close> and \<open>AnisoConv()\<close> take no argument of the caller.
\<close>

record 'n mlp_config =
  mlp_in_channels :: int
  mlp_hidden_channels :: int
  mlp_out_channels :: int
  mlp_num_layers :: int
  mlp_dropout :: real
  mlp_norm :: 'n
  mlp_bias :: bool

record 'n layers =
  diffusion :: Diffusion
  grad :: nat
  convs :: "(int \<times> int) list"
  mlp :: "'n mlp_config"
  ip :: "int \<times> int"

definition raise_if :: "error option \<Rightarrow> 'a \<Rightarrow> error + 'a" where
  "raise_if e v = (case e of Some err \<Rightarrow> Inl err | None \<Rightarrow> Inr v)"

definition InnerProductFeatures_args :: "int \<Rightarrow> int \<Rightarrow> error + int \<times> int" where
  \<comment> \<open>\<open>InnerProductFeatures(C, D)\<close>: \<open>for i in range(C): self.O.append(nn.Linear(D, D, bias=False))\<close>\<close>
  "InnerProductFeatures_args C D = (if 0 < C \<and> D < 0 then Inl RuntimeError else Inr (C, D))"

definition cum_channels_grad :: "int \<Rightarrow> int \<Rightarrow> nat \<Rightarrow> error + int" where
  \<comment> \<open>\<open>cum_channels = s*((1-e**(o+1))//(1-e))\<close>, with \<open>od\<close> for the source's \<open>o\<close>.\<close>
  "cum_channels_grad s e od =
     bind_err (py_floordiv (1 - e ^ (od + 1)) (1 - e)) (\<lambda>q. Inr (s * q))"

definition cum_channels_ip :: "'n params \<Rightarrow> int \<Rightarrow> error + int" where
  \<comment> \<open>The adjustment under \<open>if par['inner_product_features']\<close>.\<close>
  "cum_channels_ip par cum =
     (if inner_product_features par
      then bind_err (py_floordiv cum (signal_dim par))
             (\<lambda>c. Inr (if signal_dim par = 1 then int (order par) + 1 else c))
      else Inr cum)"

definition setup_layers ::
  "(int \<Rightarrow> int \<Rightarrow> error option) \<Rightarrow> ('n mlp_config \<Rightarrow> error option) \<Rightarrow> 'n params
   \<Rightarrow> error + 'n layers" where
  "setup_layers gcn_err mlp_err par =
     (let s = signal_dim par; e = emb_dim par; od = order par in
      bind_err (cum_channels_grad s e od) (\<lambda>cum0.
      bind_err (cum_channels_ip par cum0) (\<lambda>cum.
      bind_err (those_err (replicate (depth par) (raise_if (gcn_err cum cum) (cum, cum)))) (\<lambda>cs.
      bind_err (InnerProductFeatures_args cum s) (\<lambda>ipa.
        let cfg = \<lparr>mlp_in_channels = cum,
                   mlp_hidden_channels = hidden_channels par,
                   mlp_out_channels = out_channels par,
                   mlp_num_layers = n_lin_layers par,
                   mlp_dropout = dropout par,
                   mlp_norm = batch_norm par,
                   mlp_bias = bias par\<rparr>
        in raise_if (mlp_err cfg)
             \<lparr>diffusion = Diffusion_init (Fin 0),
              grad = od,
              convs = cs,
              mlp = cfg,
              ip = ipa\<rparr>)))))"


section \<open>compare_attractors\<close>

text \<open>
  The dataset object is modelled by the names of the attributes it has and by
  \<open>data._slice_dict['x']\<close>, the slice boundaries.  The second argument of Python's
  \<open>hasattr\<close> must be a string: any other value raises \<open>TypeError\<close>.  The model covers the
  function up to its last \<open>assert\<close>; the plotting that follows is not modelled, and
  \<open>Inr (s_s, s_t)\<close> stands for reaching it with the two node ranges.
\<close>

record pyg_data =
  attrs :: "string list"
  slice_dict_x :: "int list"

datatype pyval = PStr string | PTuple "pyval list"

definition hasattr :: "pyg_data \<Rightarrow> pyval \<Rightarrow> error + bool" where
  "hasattr d n = (case n of PStr a \<Rightarrow> Inr (a \<in> set (attrs d)) | PTuple _ \<Rightarrow> Inl TypeError)"

definition py_assert :: "bool \<Rightarrow> string \<Rightarrow> error + unit" where
  "py_assert c msg = (if c then Inr () else Inl (AssertionError msg))"

definition slice_checks :: "pyg_data \<Rightarrow> int \<times> int \<Rightarrow> error + (int \<times> int) \<times> (int \<times> int)" where
  \<comment> \<open>Lines 57 to 64 of the source: everything after the first \<open>assert\<close>.\<close>
  "slice_checks d source_target =
     (let (s, t) = source_target;
          slices = slice_dict_x d;
          n_slices = int (length slices) - 1
      in bind_err (py_index slices s) (\<lambda>a0.
         bind_err (py_index slices (s + 1)) (\<lambda>a1.
         bind_err (py_index slices t) (\<lambda>b0.
         bind_err (py_index slices (t + 1)) (\<lambda>b1.
         bind_err (py_assert (s < n_slices - 2 \<and> t < n_slices - 1)
                     ''Source and target must be < number of slices!'') (\<lambda>_.
         bind_err (py_assert (s \<noteq> t) ''Source and target must be different!'') (\<lambda>_.
           Inr ((a0, a1), (b0, b1)))))))))"

definition compare_attractors :: "pyg_data \<Rightarrow> int \<times> int \<Rightarrow> error + (int \<times> int) \<times> (int \<times> int)" where
  "compare_attractors d source_target =
     bind_err (hasattr d (PTuple [PStr ''emb_2d''])) (\<lambda>has.
     bind_err (py_assert has ''No clusters found. First, run geometry.cluster(data) or postprocessing(data)!'') (\<lambda>_.
       slice_checks d source_target))"


section \<open>More tensor operations\<close>

text \<open>
  Tensors of three and four dimensions, again as a shape and row-major storage, and the
  torch operations the two remaining layers use.  \<open>mk2\<close> and \<open>mk3\<close> build a tensor from
  a function of the indices.
\<close>

record tensor3 =
  dim0 :: nat
  dim1 :: nat
  dim2 :: nat
  dat3 :: "real list"

record tensor4 =
  d0 :: nat
  d1 :: nat
  d2 :: nat
  d3 :: nat
  dat4 :: "real list"

definition at3 :: "tensor3 \<Rightarrow> nat \<Rightarrow> nat \<Rightarrow> nat \<Rightarrow> real" where
  "at3 x b k c = dat3 x ! ((b * dim1 x + k) * dim2 x + c)"

definition at4 :: "tensor4 \<Rightarrow> nat \<Rightarrow> nat \<Rightarrow> nat \<Rightarrow> nat \<Rightarrow> real" where
  "at4 x i j a b = dat4 x ! (((i * d1 x + j) * d2 x + a) * d3 x + b)"

definition mk2 :: "nat \<Rightarrow> nat \<Rightarrow> (nat \<Rightarrow> nat \<Rightarrow> real) \<Rightarrow> tensor" where
  "mk2 n m f = \<lparr>shape0 = n, shape1 = m,
                dat = map (\<lambda>idx. f (idx div m) (idx mod m)) [0..<n * m]\<rparr>"

definition mk3 :: "nat \<Rightarrow> nat \<Rightarrow> nat \<Rightarrow> (nat \<Rightarrow> nat \<Rightarrow> nat \<Rightarrow> real) \<Rightarrow> tensor3" where
  "mk3 n m l f = \<lparr>dim0 = n, dim1 = m, dim2 = l,
                  dat3 = map (\<lambda>idx. f (idx div (m * l)) ((idx div l) mod m) (idx mod l))
                             [0..<n * m * l]\<rparr>"

definition fiber :: "tensor3 \<Rightarrow> nat \<Rightarrow> real list" where
  \<comment> \<open>The entries \<open>[b, k, :]\<close>, for \<open>i = b * dim1 + k\<close>.\<close>
  "fiber x i = take (dim2 x) (drop (i * dim2 x) (dat3 x))"

definition transpose2 :: "tensor \<Rightarrow> tensor" where
  \<comment> \<open>\<open>K.t()\<close>\<close>
  "transpose2 K = mk2 (shape1 K) (shape0 K) (\<lambda>i j. at2 K j i)"

definition view_cols :: "tensor \<Rightarrow> nat \<Rightarrow> error + tensor" where
  \<comment> \<open>\<open>x.view(-1, m)\<close>\<close>
  "view_cols x m =
     (let numel = shape0 x * shape1 x in
      if m = 0 \<or> numel mod m \<noteq> 0 then Inl RuntimeError
      else Inr \<lparr>shape0 = numel div m, shape1 = m, dat = dat x\<rparr>)"

definition reshape_rows :: "tensor \<Rightarrow> nat \<Rightarrow> error + tensor" where
  \<comment> \<open>\<open>x.reshape(n, -1)\<close>\<close>
  "reshape_rows x n =
     (let numel = shape0 x * shape1 x in
      if n = 0 \<or> numel mod n \<noteq> 0 then Inl RuntimeError
      else Inr \<lparr>shape0 = n, shape1 = numel div n, dat = dat x\<rparr>)"

definition reshape3 :: "tensor \<Rightarrow> nat \<Rightarrow> error + tensor3" where
  \<comment> \<open>\<open>x.reshape(x.shape[0], D, -1)\<close>\<close>
  "reshape3 x D =
     (let numel = shape0 x * shape1 x; known = shape0 x * D in
      if known = 0 \<or> numel mod known \<noteq> 0 then Inl RuntimeError
      else Inr \<lparr>dim0 = shape0 x, dim1 = D, dim2 = numel div known, dat3 = dat x\<rparr>)"

definition view3_rows :: "tensor3 \<Rightarrow> error + tensor" where
  \<comment> \<open>\<open>out.view(out.shape[0], -1)\<close> on a tensor of three dimensions\<close>
  "view3_rows x =
     (if dim0 x = 0 then Inl RuntimeError
      else Inr \<lparr>shape0 = dim0 x, shape1 = (dim0 x * dim1 x * dim2 x) div dim0 x, dat = dat3 x\<rparr>)"

definition norm_dim2 :: "tensor3 \<Rightarrow> tensor" where
  \<comment> \<open>\<open>x.norm(dim=2)\<close>: the 2-norm over the last axis\<close>
  "norm_dim2 x = mk2 (dim0 x) (dim1 x)
     (\<lambda>b k. sqrt (sum_list (map (\<lambda>c. (at3 x b k c)\<^sup>2) [0..<dim2 x])))"

definition cat2 :: "tensor3 list \<Rightarrow> error + tensor3" where
  \<comment> \<open>\<open>torch.cat(ts, axis=2)\<close>: a non-empty list of tensors that agree on the first two axes\<close>
  "cat2 ts =
     (case ts of
        [] \<Rightarrow> Inl RuntimeError
      | t # rest \<Rightarrow>
          if list_all (\<lambda>u. dim0 u = dim0 t \<and> dim1 u = dim1 t) rest
          then Inr \<lparr>dim0 = dim0 t, dim1 = dim1 t,
                    dim2 = sum_list (map dim2 ts),
                    dat3 = concat (map (\<lambda>i. concat (map (\<lambda>u. fiber u i) ts))
                                       [0..<dim0 t * dim1 t])\<rparr>
          else Inl RuntimeError)"

definition stack2 :: "tensor list \<Rightarrow> error + tensor3" where
  \<comment> \<open>\<open>torch.stack(ts, dim=2)\<close>: a non-empty list of tensors of one shape\<close>
  "stack2 ts =
     (case ts of
        [] \<Rightarrow> Inl RuntimeError
      | t # rest \<Rightarrow>
          if list_all (\<lambda>u. shape0 u = shape0 t \<and> shape1 u = shape1 t) rest
          then Inr (mk3 (shape0 t) (shape1 t) (length ts) (\<lambda>b k j. at2 (ts ! j) b k))
          else Inl RuntimeError)"

definition select_last :: "tensor3 \<Rightarrow> nat \<Rightarrow> tensor" where
  \<comment> \<open>\<open>x[..., j]\<close>\<close>
  "select_last x j = mk2 (dim0 x) (dim1 x) (\<lambda>b k. at3 x b k j)"

definition linear :: "tensor \<Rightarrow> tensor \<Rightarrow> error + tensor" where
  \<comment> \<open>\<open>nn.Linear\<close> without bias, applied to a matrix: \<open>inp @ W.T\<close>\<close>
  "linear W inp =
     (if shape1 inp \<noteq> shape1 W then Inl RuntimeError
      else Inr (mk2 (shape0 inp) (shape0 W)
                  (\<lambda>b k. sum_list (map (\<lambda>l. at2 inp b l * at2 W k l) [0..<shape1 W]))))"

definition eye :: "nat \<Rightarrow> tensor" where
  "eye n = mk2 n n (\<lambda>k l. if k = l then 1 else 0)"

definition broadcast_dim :: "nat \<Rightarrow> nat \<Rightarrow> nat option" where
  \<comment> \<open>The common size of two axes under torch's broadcasting, if there is one.\<close>
  "broadcast_dim a b = (if a = b then Some a else if a = 1 then Some b
                        else if b = 1 then Some a else None)"

definition bidx :: "nat \<Rightarrow> nat \<Rightarrow> nat" where
  \<comment> \<open>The position read on an axis of size \<open>n\<close>: an axis of size one is repeated.\<close>
  "bidx n i = (if n = 1 then 0 else i)"

definition einsum_bki_bkj_bi :: "tensor3 \<Rightarrow> tensor3 \<Rightarrow> error + tensor" where
  \<comment> \<open>\<open>torch.einsum('bki,bkj->bi', x, y)\<close>; the axes \<open>b\<close> and \<open>k\<close> are broadcast\<close>
  "einsum_bki_bkj_bi x y =
     (case (broadcast_dim (dim0 x) (dim0 y), broadcast_dim (dim1 x) (dim1 y)) of
        (Some nb, Some nk) \<Rightarrow>
          Inr (mk2 nb (dim2 x)
                 (\<lambda>b i. sum_list (map (\<lambda>k. sum_list (map (\<lambda>j.
                            at3 x (bidx (dim0 x) b) (bidx (dim1 x) k) i
                              * at3 y (bidx (dim0 y) b) (bidx (dim1 y) k) j)
                                                          [0..<dim2 y]))
                                       [0..<nk])))
      | _ \<Rightarrow> Inl RuntimeError)"

definition kron_ones :: "tensor \<Rightarrow> nat \<Rightarrow> tensor" where
  \<comment> \<open>\<open>torch.kron(K, torch.ones(dim, dim))\<close>\<close>
  "kron_ones K dm = mk2 (shape0 K * dm) (shape1 K * dm)
     (\<lambda>p q. at2 K (p div dm) (q div dm) * 1)"

definition mul_bc :: "tensor \<Rightarrow> tensor \<Rightarrow> error + tensor" where
  \<comment> \<open>\<open>A * B\<close>, elementwise with torch's broadcasting of axes of size one\<close>
  "mul_bc A B =
     (case (broadcast_dim (shape0 A) (shape0 B), broadcast_dim (shape1 A) (shape1 B)) of
        (Some n, Some m) \<Rightarrow>
          Inr (mk2 n m (\<lambda>p q. at2 A (bidx (shape0 A) p) (bidx (shape1 A) q)
                              * at2 B (bidx (shape0 B) p) (bidx (shape1 B) q)))
      | _ \<Rightarrow> Inl RuntimeError)"

definition block_matrix :: "tensor4 \<Rightarrow> error + tensor" where
  \<comment> \<open>\<open>R.swapaxes(1,2).reshape(n*dim, n*dim)\<close> with \<open>n, _, _, dim = R.shape\<close>\<close>
  "block_matrix R =
     (let n = d0 R; dm = d3 R; numel = d0 R * d1 R * d2 R * d3 R in
      if numel \<noteq> (n * dm) * (n * dm) then Inl RuntimeError
      else Inr \<lparr>shape0 = n * dm, shape1 = n * dm,
                dat = map (\<lambda>idx. at4 R (idx div (d3 R * d1 R * d2 R))
                                        ((idx div d3 R) mod d1 R)
                                        ((idx div (d3 R * d1 R)) mod d2 R)
                                        (idx mod d3 R))
                          [0..<numel]\<rparr>)"


section \<open>AnisoConv\<close>

text \<open>
  An edge index is the list of its columns, pairs of node numbers.  A \<open>SparseTensor\<close> is
  modelled by the matrix it represents.  Three routines are arguments of the model:
  \<open>to_list\<close> and \<open>to_SparseTensor\<close> of \<open>lib.utils\<close>, and \<open>matmul\<close>, the product of a
  \<open>SparseTensor\<close> with a dense matrix under the reduction \<open>add\<close>.  \<open>propagate\<close> of the
  message-passing base class hands a \<open>SparseTensor\<close> and \<open>x\<close> to \<open>message_and_aggregate\<close>
  and returns its result.  The variables \<open>dm\<close> and \<open>sz\<close> stand for the source's \<open>dim\<close>
  and \<open>size\<close>.
\<close>

type_synonym edge_index = "(nat \<times> nat) list"

definition to_dense_adj :: "edge_index \<Rightarrow> error + tensor" where
  \<comment> \<open>\<open>tgu.to_dense_adj(edge_index)[0]\<close>: entry \<open>[i, j]\<close> counts the edges from \<open>i\<close> to \<open>j\<close>\<close>
  "to_dense_adj ei =
     (if ei = [] then Inl RuntimeError
      else let n = Suc (Max (set (map fst ei @ map snd ei)))
           in Inr (mk2 n n (\<lambda>i j. real (count_list ei (i, j)))))"

definition repeat_interleave_both :: "tensor \<Rightarrow> nat \<Rightarrow> tensor" where
  \<comment> \<open>\<open>adj.repeat_interleave(dim, dim=1).repeat_interleave(dim, dim=0)\<close>\<close>
  "repeat_interleave_both adj dm =
     mk2 (shape0 adj * dm) (shape1 adj * dm) (\<lambda>p q. at2 adj (p div dm) (q div dm))"

definition dense_to_sparse :: "tensor \<Rightarrow> edge_index" where
  \<comment> \<open>\<open>tgu.sparse.dense_to_sparse(adj)[0]\<close>: the positions of the non-zero entries, row by row\<close>
  "dense_to_sparse adj =
     concat (map (\<lambda>p. map (\<lambda>q. (p, q)) (filter (\<lambda>q. at2 adj p q \<noteq> 0) [0..<shape1 adj]))
                 [0..<shape0 adj])"

definition expand_adjacenecy_matrix :: "edge_index \<Rightarrow> nat \<Rightarrow> error + edge_index" where
  "expand_adjacenecy_matrix ei dm =
     bind_err (to_dense_adj ei) (\<lambda>adj. Inr (dense_to_sparse (repeat_interleave_both adj dm)))"

definition py_floordiv_nat :: "nat \<Rightarrow> nat \<Rightarrow> error + nat" where
  "py_floordiv_nat a b = (if b = 0 then Inl ZeroDivisionError else Inr (a div b))"

definition message_and_aggregate ::
  "(tensor \<Rightarrow> tensor \<Rightarrow> error + tensor) \<Rightarrow> tensor \<Rightarrow> tensor \<Rightarrow> error + tensor" where
  \<comment> \<open>The test is \<open>(K_t.size(dim=1) % n*dim)==0\<close>; \<open>%\<close> and \<open>*\<close> associate to the left.\<close>
  "message_and_aggregate matmul K_t x =
     (let n = shape0 x; dm = shape1 x in
      bind_err (py_mod (shape1 K_t) n) (\<lambda>r.
      bind_err (if r * dm = 0
                then bind_err (py_floordiv_nat (n * dm) (shape1 K_t)) (\<lambda>n_ch. view_cols x n_ch)
                else Inr x) (\<lambda>x'.
      bind_err (matmul K_t x') (\<lambda>y. view_cols y dm))))"

definition rotate_args ::
  "edge_index \<Rightarrow> nat \<times> nat \<Rightarrow> tensor4 option
   \<Rightarrow> error + ((tensor \<times> nat) option \<times> (nat \<times> nat) \<times> edge_index)" where
  \<comment> \<open>The block under \<open>if R is not None\<close> at the start of \<open>forward\<close>.\<close>
  "rotate_args edge_index sz R =
     (case R of
        None \<Rightarrow> Inr (None, sz, edge_index)
      | Some R' \<Rightarrow>
          bind_err (block_matrix R') (\<lambda>Rb.
          bind_err (expand_adjacenecy_matrix edge_index (d3 R')) (\<lambda>ei'.
            Inr (Some (Rb, d3 R'), (fst sz * d3 R', snd sz * d3 R'), ei'))))"

definition apply_kernel ::
  "(edge_index \<Rightarrow> nat \<times> nat \<Rightarrow> tensor \<Rightarrow> error + tensor)
   \<Rightarrow> (tensor \<Rightarrow> tensor \<Rightarrow> error + tensor)
   \<Rightarrow> tensor \<Rightarrow> (tensor \<times> nat) option \<Rightarrow> nat \<times> nat \<Rightarrow> edge_index \<Rightarrow> tensor
   \<Rightarrow> error + tensor" where
  \<comment> \<open>The body of the loop over the kernels.\<close>
  "apply_kernel to_SparseTensor matmul x Rb sz edge_index K =
     bind_err (case Rb of None \<Rightarrow> Inr K | Some (B, dm) \<Rightarrow> mul_bc B (kron_ones K dm)) (\<lambda>K'.
     bind_err (to_SparseTensor edge_index sz (transpose2 K')) (\<lambda>Ks.
       message_and_aggregate matmul (transpose2 Ks) x))"

definition AnisoConv_forward ::
  "('k \<Rightarrow> tensor list)
   \<Rightarrow> (edge_index \<Rightarrow> nat \<times> nat \<Rightarrow> tensor \<Rightarrow> error + tensor)
   \<Rightarrow> (tensor \<Rightarrow> tensor \<Rightarrow> error + tensor)
   \<Rightarrow> tensor \<Rightarrow> edge_index \<Rightarrow> nat \<times> nat \<Rightarrow> 'k \<Rightarrow> tensor4 option \<Rightarrow> error + tensor" where
  "AnisoConv_forward to_list to_SparseTensor matmul x edge_index sz kernels R =
     bind_err (rotate_args edge_index sz R) (\<lambda>(Rb, sz', edge_index').
     bind_err (those_err (map (apply_kernel to_SparseTensor matmul x Rb sz' edge_index')
                              (to_list kernels))) (\<lambda>out.
     bind_err (stack2 out) view3_rows))"


section \<open>InnerProductFeatures\<close>

text \<open>
  The module holds \<open>C\<close>, \<open>D\<close> and the weights of its \<open>C\<close> linear maps.  The constructor ends
  with \<open>reset_parameters\<close>, which sets every weight to the identity.  \<open>forward\<close> takes one
  tensor or a list of tensors.  The model gives the value \<open>forward\<close> returns; that the
  entries of a list passed by the caller are replaced by their reshaped forms is not part
  of it.
\<close>

record InnerProductFeatures =
  ipf_C :: nat
  ipf_D :: nat
  ipf_O :: "tensor list"

datatype ipf_input = Single tensor | Many "tensor list"

definition reset_parameters :: "InnerProductFeatures \<Rightarrow> InnerProductFeatures" where
  "reset_parameters self = self\<lparr>ipf_O := map (\<lambda>W. eye (ipf_D self)) (ipf_O self)\<rparr>"

definition InnerProductFeatures_init :: "nat \<Rightarrow> nat \<Rightarrow> (nat \<Rightarrow> tensor) \<Rightarrow> InnerProductFeatures" where
  \<comment> \<open>\<open>w0 i\<close> is the weight \<open>nn.Linear\<close> draws for the map \<open>i\<close> before \<open>reset_parameters\<close> runs.\<close>
  "InnerProductFeatures_init C D w0 =
     reset_parameters \<lparr>ipf_C = C, ipf_D = D, ipf_O = map w0 [0..<C]\<rparr>"

definition channels_msg :: string where
  "channels_msg = ''Number of channels is incorrect!''"

definition ipf_vector :: "InnerProductFeatures \<Rightarrow> tensor3 \<Rightarrow> error + tensor" where
  \<comment> \<open>The \<open>else\<close> branch of \<open>forward\<close> after the concatenation.\<close>
  "ipf_vector self x =
     (if dim2 x \<noteq> ipf_C self then Inl (AssertionError channels_msg)
      else
        bind_err (those_err (map (\<lambda>j. bind_err (py_index (ipf_O self) (int j))
                                        (\<lambda>W. linear W (select_last x j)))
                                 [0..<ipf_C self])) (\<lambda>Ox.
        bind_err (stack2 Ox) (\<lambda>Ox3.
        bind_err (einsum_bki_bkj_bi x Ox3) (\<lambda>xOx.
          reshape_rows xOx (dim0 x)))))"

definition InnerProductFeatures_forward :: "InnerProductFeatures \<Rightarrow> ipf_input \<Rightarrow> error + tensor" where
  "InnerProductFeatures_forward self inp =
     (let x = (case inp of Single t \<Rightarrow> [t] | Many ts \<Rightarrow> ts) in
      bind_err (those_err (map (\<lambda>t. reshape3 t (ipf_D self)) x)) (\<lambda>x3.
        if ipf_D self = 1 then cat1 (map norm_dim2 x3)
        else bind_err (cat2 x3) (ipf_vector self)))"


section \<open>Example inputs\<close>

definition dim_msg :: string where
  "dim_msg = ''Data dimension must be an integer multiple of the dimensions of the connection Laplacian!''"

definition par_ex :: "int \<Rightarrow> bool \<Rightarrow> string params" where
  "par_ex e ipf = \<lparr>signal_dim = 3, emb_dim = e, order = 2, depth = 2,
     inner_product_features = ipf, hidden_channels = 16, out_channels = 3,
     n_lin_layers = 2, dropout = 0, batch_norm = ''batch_norm'', bias = True\<rparr>"

definition mlp_ex :: "int \<Rightarrow> string mlp_config" where
  \<comment> \<open>What \<open>MLP\<close> receives from \<open>par_ex\<close> with \<open>c\<close> input channels.\<close>
  "mlp_ex c = \<lparr>mlp_in_channels = c, mlp_hidden_channels = 16, mlp_out_channels = 3,
     mlp_num_layers = 2, mlp_dropout = 0, mlp_norm = ''batch_norm'', mlp_bias = True\<rparr>"

definition gcn_accepts :: "int \<Rightarrow> int \<Rightarrow> error option" where
  "gcn_accepts a b = None"

definition mlp_accepts :: "string mlp_config \<Rightarrow> error option" where
  "mlp_accepts cfg = None"

definition data_ex :: pyg_data where
  \<comment> \<open>A dataset of three slices after \<open>postprocessing\<close>.\<close>
  "data_ex = \<lparr>attrs = [''emb'', ''emb_2d'', ''manifold'', ''clusters'', ''dist'', ''gamma'', ''cdist''],
     slice_dict_x = [0, 2, 4, 6]\<rparr>"

definition zeros :: "nat \<Rightarrow> nat \<Rightarrow> tensor" where
  "zeros n m = \<lparr>shape0 = n, shape1 = m, dat = replicate (n * m) 0\<rparr>"

text \<open>Stand-ins for the routines of \<open>lib.geometry\<close>, for concrete runs of \<open>Diffusion.forward\<close>.\<close>

definition ceig_ex :: "tensor \<Rightarrow> real list \<times> real list" where
  "ceig_ex M = (replicate (shape0 M) 0, dat M)"

definition vdiff_ex :: "tensor \<Rightarrow> f32 \<Rightarrow> string \<Rightarrow> (real list) pardict \<Rightarrow> error + tensor" where
  "vdiff_ex x t method par = Inr x"

definition sdiff_ex :: "real list \<Rightarrow> f32 \<Rightarrow> string \<Rightarrow> (real list) pardict \<Rightarrow> error + tensor" where
  "sdiff_ex xc t method par = Inr \<lparr>shape0 = length xc, shape1 = 1, dat = xc\<rparr>"

text \<open>Inputs of \<open>InnerProductFeatures.forward\<close>.\<close>

definition x1234 :: tensor where
  "x1234 = \<lparr>shape0 = 1, shape1 = 4, dat = [1, 2, 3, 4]\<rparr>"

definition x34 :: tensor where
  "x34 = \<lparr>shape0 = 1, shape1 = 2, dat = [3, 4]\<rparr>"

definition xm2 :: tensor where
  "xm2 = \<lparr>shape0 = 1, shape1 = 1, dat = [- 2]\<rparr>"

text \<open>
  Inputs of \<open>AnisoConv\<close>, with a dense matrix product and the identity on the values for
  the routines that are arguments of the model.
\<close>

definition matmul_dense :: "tensor \<Rightarrow> tensor \<Rightarrow> error + tensor" where
  "matmul_dense A x =
     (if shape1 A \<noteq> shape0 x then Inl RuntimeError
      else Inr (mk2 (shape0 A) (shape1 x)
                  (\<lambda>i c. sum_list (map (\<lambda>j. at2 A i j * at2 x j c) [0..<shape1 A]))))"

definition to_SparseTensor_ex :: "edge_index \<Rightarrow> nat \<times> nat \<Rightarrow> tensor \<Rightarrow> error + tensor" where
  "to_SparseTensor_ex ei sz v = Inr v"

definition x22 :: tensor where
  "x22 = \<lparr>shape0 = 2, shape1 = 2, dat = [1, 2, 3, 4]\<rparr>"

definition K_swap :: tensor where
  "K_swap = \<lparr>shape0 = 2, shape1 = 2, dat = [0, 1, 1, 0]\<rparr>"

definition K23 :: tensor where
  "K23 = \<lparr>shape0 = 2, shape1 = 3, dat = [0, 1, 0, 1, 0, 0]\<rparr>"

definition x24 :: tensor where
  "x24 = \<lparr>shape0 = 2, shape1 = 4, dat = [1, 2, 3, 4, 5, 6, 7, 8]\<rparr>"

definition K_id :: tensor where
  "K_id = \<lparr>shape0 = 2, shape1 = 2, dat = [1, 0, 0, 1]\<rparr>"

definition K_sum :: tensor where
  "K_sum = \<lparr>shape0 = 2, shape1 = 2, dat = [1, 1, 1, 1]\<rparr>"

definition K28 :: tensor where
  "K28 = \<lparr>shape0 = 2, shape1 = 8, dat = replicate 16 1\<rparr>"

definition K_rev :: tensor where
  "K_rev = \<lparr>shape0 = 4, shape1 = 4, dat = [0, 0, 0, 1,  0, 0, 1, 0,  0, 1, 0, 0,  1, 0, 0, 0]\<rparr>"

text \<open>
  Two more products for runs of \<open>message_and_aggregate\<close>: one that raises whenever it is
  reached, and one that returns its second argument.
\<close>

definition matmul_raises :: "tensor \<Rightarrow> tensor \<Rightarrow> error + tensor" where
  "matmul_raises K y = Inl TypeError"

definition matmul_second :: "tensor \<Rightarrow> tensor \<Rightarrow> error + tensor" where
  "matmul_second K y = Inr y"


section \<open>Channel counts of setup_layers\<close>

lemma geometric_floordiv:
  fixes e :: int
  assumes "e \<noteq> 1"
  shows "(1 - e ^ (n + 1)) div (1 - e) = (\<Sum>i\<le>n. e ^ i)"
proof -
  have "1 - e ^ (n + 1) = (1 - e) * (\<Sum>i<n + 1. e ^ i)"
    by (rule one_diff_power_eq)
  then have "1 - e ^ (n + 1) = (1 - e) * (\<Sum>i\<le>n. e ^ i)"
    by (simp only: Suc_eq_plus1 [symmetric] lessThan_Suc_atMost)
  moreover have "1 - e \<noteq> 0" using assms by simp
  ultimately show ?thesis by (metis nonzero_mult_div_cancel_left)
qed

lemma cum_channels_grad_ne1:
  "e \<noteq> 1 \<Longrightarrow> cum_channels_grad s e od = Inr (s * (\<Sum>i\<le>od. e ^ i))"
  using geometric_floordiv [of e od]
  by (simp add: cum_channels_grad_def py_floordiv_def bind_err_def)

lemma cum_channels_grad_1: "cum_channels_grad s 1 od = Inl ZeroDivisionError"
  by (simp add: cum_channels_grad_def py_floordiv_def bind_err_def)

lemma those_err_replicate: "those_err (replicate n (Inr v)) = Inr (replicate n v)"
  by (induction n) (simp_all add: bind_err_def)

lemma convs_accepted:
  "depth par = 0 \<or> gcn_err c c = None
     \<Longrightarrow> those_err (replicate (depth par) (raise_if (gcn_err c c) (c, c)))
           = Inr (replicate (depth par) (c, c))"
  by (auto simp: raise_if_def those_err_replicate)

text \<open>
  C10.  With \<open>emb_dim = 1\<close> the call of \<open>setup_layers\<close> ends in a division by zero, raised by
  the geometric-series expression, whatever the constructors accept.  With \<open>emb_dim \<ge> 2\<close> the
  channel count computed before the inner-product adjustment is \<open>c0\<close>, \<open>signal_dim\<close> times
  the sum of the powers \<open>emb_dim ^ i\<close> for \<open>i\<close> from 0 to \<open>order\<close>, and \<open>setup_layers\<close> goes on
  with it: the adjustment divides \<open>c0\<close> by \<open>signal_dim\<close> (a division by zero for
  \<open>signal_dim = 0\<close>) or sets \<open>order + 1\<close>, and when the constructors accept the resulting
  count \<open>c\<close>, every layer returned is built for \<open>c\<close> channels.
\<close>

theorem setup_layers_channels:
  "(emb_dim par = 1 \<longrightarrow> setup_layers gcn_err mlp_err par = Inl ZeroDivisionError) \<and>
   (2 \<le> emb_dim par \<longrightarrow>
      (let c0 = signal_dim par * (\<Sum>i\<le>order par. emb_dim par ^ i);
           c = (if inner_product_features par
                then (if signal_dim par = 1 then int (order par) + 1 else c0 div signal_dim par)
                else c0);
           cfg = \<lparr>mlp_in_channels = c,
                   mlp_hidden_channels = hidden_channels par,
                   mlp_out_channels = out_channels par,
                   mlp_num_layers = n_lin_layers par,
                   mlp_dropout = dropout par,
                   mlp_norm = batch_norm par,
                   mlp_bias = bias par\<rparr>
       in cum_channels_grad (signal_dim par) (emb_dim par) (order par) = Inr c0 \<and>
          (inner_product_features par \<and> signal_dim par = 0 \<longrightarrow>
             setup_layers gcn_err mlp_err par = Inl ZeroDivisionError) \<and>
          (\<not> (inner_product_features par \<and> signal_dim par = 0) \<longrightarrow>
           (depth par = 0 \<or> gcn_err c c = None) \<longrightarrow>
           \<not> (0 < c \<and> signal_dim par < 0) \<longrightarrow>
           mlp_err cfg = None \<longrightarrow>
             setup_layers gcn_err mlp_err par
               = Inr \<lparr>diffusion = Diffusion_init (Fin 0),
                       grad = order par,
                       convs = replicate (depth par) (c, c),
                       mlp = cfg,
                       ip = (c, signal_dim par)\<rparr>)))"
proof (intro conjI impI)
  assume "emb_dim par = 1"
  then show "setup_layers gcn_err mlp_err par = Inl ZeroDivisionError"
    by (simp add: setup_layers_def Let_def cum_channels_grad_1 bind_err_def)
next
  assume "2 \<le> emb_dim par"
  then have ne: "emb_dim par \<noteq> 1" by simp
  define c0 where "c0 = signal_dim par * (\<Sum>i\<le>order par. emb_dim par ^ i)"
  define c where "c = (if inner_product_features par
                then (if signal_dim par = 1 then int (order par) + 1 else c0 div signal_dim par)
                else c0)"
  define cfg where "cfg = \<lparr>mlp_in_channels = c,
                   mlp_hidden_channels = hidden_channels par,
                   mlp_out_channels = out_channels par,
                   mlp_num_layers = n_lin_layers par,
                   mlp_dropout = dropout par,
                   mlp_norm = batch_norm par,
                   mlp_bias = bias par\<rparr>"
  have g: "cum_channels_grad (signal_dim par) (emb_dim par) (order par) = Inr c0"
    unfolding c0_def using ne by (rule cum_channels_grad_ne1)
  have z: "setup_layers gcn_err mlp_err par = Inl ZeroDivisionError"
    if "inner_product_features par \<and> signal_dim par = 0"
    using that g
    by (simp add: setup_layers_def Let_def cum_channels_ip_def py_floordiv_def bind_err_def)
  have adj: "cum_channels_ip par c0 = Inr c"
    if "\<not> (inner_product_features par \<and> signal_dim par = 0)"
    using that by (auto simp: cum_channels_ip_def py_floordiv_def bind_err_def c_def)
  have ok: "setup_layers gcn_err mlp_err par
               = Inr \<lparr>diffusion = Diffusion_init (Fin 0),
                       grad = order par,
                       convs = replicate (depth par) (c, c),
                       mlp = cfg,
                       ip = (c, signal_dim par)\<rparr>"
    if n0: "\<not> (inner_product_features par \<and> signal_dim par = 0)"
      and gc: "depth par = 0 \<or> gcn_err c c = None"
      and ipa: "\<not> (0 < c \<and> signal_dim par < 0)"
      and ml: "mlp_err cfg = None"
  proof -
    have cs: "those_err (replicate (depth par) (raise_if (gcn_err c c) (c, c)))
                = Inr (replicate (depth par) (c, c))"
      using gc by (rule convs_accepted)
    have ia: "InnerProductFeatures_args c (signal_dim par) = Inr (c, signal_dim par)"
      using ipa by (simp add: InnerProductFeatures_args_def)
    show ?thesis
      using g adj [OF n0] cs ia ml
      by (simp add: setup_layers_def Let_def bind_err_def raise_if_def cfg_def)
  qed
  show "let c0 = signal_dim par * (\<Sum>i\<le>order par. emb_dim par ^ i);
           c = (if inner_product_features par
                then (if signal_dim par = 1 then int (order par) + 1 else c0 div signal_dim par)
                else c0);
           cfg = \<lparr>mlp_in_channels = c,
                   mlp_hidden_channels = hidden_channels par,
                   mlp_out_channels = out_channels par,
                   mlp_num_layers = n_lin_layers par,
                   mlp_dropout = dropout par,
                   mlp_norm = batch_norm par,
                   mlp_bias = bias par\<rparr>
       in cum_channels_grad (signal_dim par) (emb_dim par) (order par) = Inr c0 \<and>
          (inner_product_features par \<and> signal_dim par = 0 \<longrightarrow>
             setup_layers gcn_err mlp_err par = Inl ZeroDivisionError) \<and>
          (\<not> (inner_product_features par \<and> signal_dim par = 0) \<longrightarrow>
           (depth par = 0 \<or> gcn_err c c = None) \<longrightarrow>
           \<not> (0 < c \<and> signal_dim par < 0) \<longrightarrow>
           mlp_err cfg = None \<longrightarrow>
             setup_layers gcn_err mlp_err par
               = Inr \<lparr>diffusion = Diffusion_init (Fin 0),
                       grad = order par,
                       convs = replicate (depth par) (c, c),
                       mlp = cfg,
                       ip = (c, signal_dim par)\<rparr>)"
    unfolding Let_def c0_def [symmetric] c_def [symmetric] cfg_def [symmetric]
    using g z ok by blast
qed

theorem setup_layers_channels_witness:
  "emb_dim (par_ex 1 False) = 1 \<and>
   setup_layers gcn_accepts mlp_accepts (par_ex 1 False) = Inl ZeroDivisionError \<and>
   2 \<le> emb_dim (par_ex 2 False) \<and>
   cum_channels_grad (signal_dim (par_ex 2 False)) (emb_dim (par_ex 2 False)) (order (par_ex 2 False))
     = Inr 21 \<and>
   setup_layers gcn_accepts mlp_accepts (par_ex 2 False)
     = Inr \<lparr>diffusion = Diffusion_init (Fin 0), grad = 2, convs = [(21, 21), (21, 21)],
             mlp = mlp_ex 21, ip = (21, 3)\<rparr> \<and>
   setup_layers gcn_accepts mlp_accepts (par_ex 2 True)
     = Inr \<lparr>diffusion = Diffusion_init (Fin 0), grad = 2, convs = [(7, 7), (7, 7)],
             mlp = mlp_ex 7, ip = (7, 3)\<rparr>"
proof -
  have s: "(\<Sum>i\<le>2. (2::int) ^ i) = 7"
    by (simp add: atMost_Suc numeral_2_eq_2)
  have r: "replicate 2 v = [v, v]" for v :: "int \<times> int"
    by (simp add: numeral_2_eq_2)
  note w1 = setup_layers_channels [of "par_ex 1 False" gcn_accepts mlp_accepts, THEN conjunct1]
  note w2 = setup_layers_channels [of "par_ex 2 False" gcn_accepts mlp_accepts, THEN conjunct2]
  note w3 = setup_layers_channels [of "par_ex 2 True" gcn_accepts mlp_accepts, THEN conjunct2]
  have a: "setup_layers gcn_accepts mlp_accepts (par_ex 1 False) = Inl ZeroDivisionError"
    using w1 by (simp add: par_ex_def)
  have b: "cum_channels_grad (signal_dim (par_ex 2 False)) (emb_dim (par_ex 2 False))
             (order (par_ex 2 False)) = Inr 21"
    using w2 by (simp add: par_ex_def Let_def s)
  have c: "setup_layers gcn_accepts mlp_accepts (par_ex 2 False)
     = Inr \<lparr>diffusion = Diffusion_init (Fin 0), grad = 2, convs = [(21, 21), (21, 21)],
             mlp = mlp_ex 21, ip = (21, 3)\<rparr>"
    using w2 by (simp add: par_ex_def Let_def s r gcn_accepts_def mlp_accepts_def mlp_ex_def)
  have d: "setup_layers gcn_accepts mlp_accepts (par_ex 2 True)
     = Inr \<lparr>diffusion = Diffusion_init (Fin 0), grad = 2, convs = [(7, 7), (7, 7)],
             mlp = mlp_ex 7, ip = (7, 3)\<rparr>"
    using w3 by (simp add: par_ex_def Let_def s r gcn_accepts_def mlp_accepts_def mlp_ex_def)
  show ?thesis
    using a b c d by (simp add: par_ex_def)
qed


section \<open>The diffusion time\<close>

lemma time_floor_pos: "0 < time_floor"
  by (simp add: time_floor_def)

lemma time_floor_below: "time_floor < 1 / 10 ^ 8"
  by (simp add: time_floor_def)

lemma fst_Diffusion_forward:
  "fst (Diffusion_forward ceig vdiff sdiff self tr x L Lc m)
     = self\<lparr>diffusion_time := clamp_min (diffusion_time self) time_floor\<rparr>"
  by (simp add: Diffusion_forward_def Let_def split: option.split prod.split)

lemma time_passed_on:
  "Diffusion_forward ceig
       (\<lambda>y t. if t = clamp_min (diffusion_time self) time_floor then vdiff y t else vbad y t)
       (\<lambda>y t. if t = clamp_min (diffusion_time self) time_floor then sdiff y t else sbad y t)
       self tr x L Lc m
     = Diffusion_forward ceig vdiff sdiff self tr x L Lc m"
  by (cases Lc) (simp_all add: Diffusion_forward_def Let_def)

text \<open>
  C6 as stated fails.  A diffusion time that is not-a-number is still one after the call,
  so it is neither at least \<open>1e-8\<close> nor positive.  A diffusion time of zero is replaced by
  the float32 number nearest to \<open>1e-8\<close>, which is below \<open>1e-8\<close>.
\<close>

theorem diffusion_time_nan_stays:
  "diffusion_time (fst (Diffusion_forward ceig_ex vdiff_ex sdiff_ex (Diffusion_init NaN) []
                          (zeros 2 1) (zeros 2 2) None ''spectral'')) = NaN \<and>
   \<not> f32_ge NaN (1 / 10 ^ 8) \<and> \<not> f32_gt NaN 0 \<and>
   diffusion_time (fst (Diffusion_forward ceig_ex vdiff_ex sdiff_ex (Diffusion_init (Fin 0)) []
                          (zeros 2 1) (zeros 2 2) None ''spectral'')) = Fin (11258999 / 2 ^ 50) \<and>
   \<not> f32_ge (Fin (11258999 / 2 ^ 50)) (1 / 10 ^ 8)"
  by (simp add: fst_Diffusion_forward Diffusion_init_def clamp_min_def f32_ge_def f32_gt_def
        time_floor_def)

text \<open>
  C6, as amended.  Every call of \<open>Diffusion.forward\<close>, whatever it returns or raises,
  replaces the stored diffusion time \<open>t\<close> by \<open>t'\<close>, the result of the clamp with the float32
  bound \<open>11258999 / 2^50\<close>.  A not-a-number stays one.  Any other time becomes at least the
  bound and strictly positive; a time at or above the bound is kept, and a time below it
  becomes the bound.  The diffusion routines receive \<open>t'\<close> and no other time: replacing them,
  for all other times, by any other functions changes nothing.
\<close>

theorem diffusion_time_clamped:
  "(diffusion_time self = NaN \<longrightarrow>
      diffusion_time (fst (Diffusion_forward ceig vdiff sdiff self tr x L Lc m)) = NaN) \<and>
   (diffusion_time self \<noteq> NaN \<longrightarrow>
      f32_ge (diffusion_time (fst (Diffusion_forward ceig vdiff sdiff self tr x L Lc m))) time_floor \<and>
      f32_gt (diffusion_time (fst (Diffusion_forward ceig vdiff sdiff self tr x L Lc m))) 0) \<and>
   (f32_ge (diffusion_time self) time_floor \<longrightarrow>
      diffusion_time (fst (Diffusion_forward ceig vdiff sdiff self tr x L Lc m))
        = diffusion_time self) \<and>
   (diffusion_time self \<noteq> NaN \<longrightarrow> \<not> f32_ge (diffusion_time self) time_floor \<longrightarrow>
      diffusion_time (fst (Diffusion_forward ceig vdiff sdiff self tr x L Lc m))
        = Fin time_floor) \<and>
   time_floor = 11258999 / 2 ^ 50 \<and>
   Diffusion_forward ceig
       (\<lambda>y t. if t = diffusion_time (fst (Diffusion_forward ceig vdiff sdiff self tr x L Lc m))
               then vdiff y t else vbad y t)
       (\<lambda>y t. if t = diffusion_time (fst (Diffusion_forward ceig vdiff sdiff self tr x L Lc m))
               then sdiff y t else sbad y t)
       self tr x L Lc m
     = Diffusion_forward ceig vdiff sdiff self tr x L Lc m"
proof -
  have st: "diffusion_time (fst (Diffusion_forward ceig vdiff sdiff self tr x L Lc m))
              = clamp_min (diffusion_time self) time_floor"
    by (simp add: fst_Diffusion_forward)
  have a: "diffusion_time self = NaN \<longrightarrow> clamp_min (diffusion_time self) time_floor = NaN"
    by (simp add: clamp_min_def)
  have b: "diffusion_time self \<noteq> NaN \<longrightarrow>
             f32_ge (clamp_min (diffusion_time self) time_floor) time_floor \<and>
             f32_gt (clamp_min (diffusion_time self) time_floor) 0"
    using time_floor_pos
    by (cases "diffusion_time self") (simp_all add: clamp_min_def f32_ge_def f32_gt_def max_def)
  have c: "f32_ge (diffusion_time self) time_floor \<longrightarrow>
             clamp_min (diffusion_time self) time_floor = diffusion_time self"
    by (cases "diffusion_time self") (simp_all add: clamp_min_def f32_ge_def max_def)
  have d: "diffusion_time self \<noteq> NaN \<longrightarrow> \<not> f32_ge (diffusion_time self) time_floor \<longrightarrow>
             clamp_min (diffusion_time self) time_floor = Fin time_floor"
    by (cases "diffusion_time self") (simp_all add: clamp_min_def f32_ge_def max_def)
  have e: "time_floor = 11258999 / 2 ^ 50"
    by (simp add: time_floor_def)
  show ?thesis
    unfolding st using a b c d e time_passed_on [of ceig self vdiff vbad sdiff sbad tr x L Lc m]
    by (intro conjI)
qed

theorem diffusion_time_clamped_witness:
  "diffusion_time (Diffusion_init NaN) = NaN \<and>
   diffusion_time (fst (Diffusion_forward ceig_ex vdiff_ex sdiff_ex (Diffusion_init NaN) []
                          (zeros 2 1) (zeros 2 2) None ''spectral'')) = NaN \<and>
   f32_ge (diffusion_time (Diffusion_init (Fin 1))) time_floor \<and>
   diffusion_time (fst (Diffusion_forward ceig_ex vdiff_ex sdiff_ex (Diffusion_init (Fin 1)) []
                          (zeros 2 1) (zeros 2 2) None ''spectral'')) = Fin 1 \<and>
   diffusion_time (Diffusion_init (Fin (- 3))) \<noteq> NaN \<and>
   \<not> f32_ge (diffusion_time (Diffusion_init (Fin (- 3)))) time_floor \<and>
   diffusion_time (fst (Diffusion_forward ceig_ex vdiff_ex sdiff_ex (Diffusion_init (Fin (- 3))) []
                          (zeros 2 1) (zeros 2 2) None ''spectral'')) = Fin (11258999 / 2 ^ 50) \<and>
   f32_gt (diffusion_time (fst (Diffusion_forward ceig_ex vdiff_ex sdiff_ex
                                 (Diffusion_init (Fin (- 3))) []
                                 (zeros 2 1) (zeros 2 2) None ''spectral''))) 0"
proof -
  note w = diffusion_time_clamped [of _ ceig_ex vdiff_ex sdiff_ex "[]" "zeros 2 1" "zeros 2 2"
             None "''spectral''"]
  have n: "diffusion_time (Diffusion_init NaN) = NaN" by (simp add: Diffusion_init_def)
  have p: "f32_ge (diffusion_time (Diffusion_init (Fin 1))) time_floor"
    by (simp add: Diffusion_init_def f32_ge_def time_floor_def)
  have q: "diffusion_time (Diffusion_init (Fin (- 3))) \<noteq> NaN"
          "\<not> f32_ge (diffusion_time (Diffusion_init (Fin (- 3)))) time_floor"
    by (simp_all add: Diffusion_init_def f32_ge_def time_floor_def)
  have fl: "time_floor = 11258999 / 2 ^ 50" by (simp add: time_floor_def)
  show ?thesis
    using n p q
      w [of "Diffusion_init NaN", THEN conjunct1, rule_format, OF n]
      w [of "Diffusion_init (Fin 1)", THEN conjunct2, THEN conjunct2, THEN conjunct1, rule_format, OF p]
      w [of "Diffusion_init (Fin (- 3))", THEN conjunct2, THEN conjunct2, THEN conjunct2,
         THEN conjunct1, rule_format, OF q]
      w [of "Diffusion_init (Fin (- 3))", THEN conjunct2, THEN conjunct1, rule_format, OF q(1),
         THEN conjunct2]
    unfolding fl [symmetric]
    by (intro conjI) (simp_all add: Diffusion_init_def)
qed


section \<open>The eigendecomposition is recomputed by every spectral call\<close>

lemma trace_spectral:
  "fst (snd (Diffusion_forward ceig vdiff sdiff self tr x L None ''spectral'')) = tr @ [L]"
  "fst (snd (Diffusion_forward ceig vdiff sdiff self tr x L (Some Lc) ''spectral'')) = tr @ [Lc]"
  by (simp_all add: Diffusion_forward_def Let_def eig_into_def)

text \<open>
  C1.  The dictionaries \<open>par_L\<close> and \<open>par_Lc\<close> are built anew by every call, so the test
  \<open>'evals' not in par.keys()\<close> always succeeds: of two spectral calls on the same operator
  with the same Laplacian, the second computes the eigendecomposition again.  Starting from
  an empty trace, the trace after the second call holds two decompositions of the same
  Laplacian.
\<close>

theorem diffusion_recomputes:
  "(case Diffusion_forward ceig vdiff sdiff self [] x L None ''spectral'' of
      (self1, tr1, r1) \<Rightarrow>
        fst (snd (Diffusion_forward ceig vdiff sdiff self1 tr1 y L None ''spectral''))) = [L, L] \<and>
   (case Diffusion_forward ceig vdiff sdiff self [] x L (Some Lc) ''spectral'' of
      (self1, tr1, r1) \<Rightarrow>
        fst (snd (Diffusion_forward ceig vdiff sdiff self1 tr1 y L (Some Lc) ''spectral''))) = [Lc, Lc]"
  by (simp add: Diffusion_forward_def Let_def eig_into_def)


section \<open>The dimension check of vector diffusion\<close>

text \<open>
  C2.  With a connection Laplacian of at least one row, \<open>forward\<close> raises the
  dimension-mismatch assertion when \<open>(V * K) mod rows(Lc)\<close> is not zero, and otherwise returns
  what \<open>vector_diffusion\<close> returns on the input, the clamped time, the method and the
  parameter dictionary.  An input of shape 5 by 3 with a 7 by 7 connection Laplacian raises.
\<close>

theorem vector_diffusion_dimension_check:
  assumes "0 < shape0 Lc"
  shows "((shape0 x * shape1 x) mod shape0 Lc \<noteq> 0 \<longrightarrow>
           snd (snd (Diffusion_forward ceig vdiff sdiff self tr x L (Some Lc) m))
             = Inl (AssertionError dim_msg)) \<and>
         ((shape0 x * shape1 x) mod shape0 Lc = 0 \<longrightarrow>
           snd (snd (Diffusion_forward ceig vdiff sdiff self tr x L (Some Lc) m))
             = vdiff x (clamp_min (diffusion_time self) time_floor) m
                 (fst (eig_into ceig m Lc [''Lc'' \<mapsto> Lap (Some Lc)] tr)))"
  using assms
  by (simp add: Diffusion_forward_def Let_def py_mod_def bind_err_def dim_msg_def split: prod.split)

theorem vector_diffusion_dimension_check_witness:
  "0 < shape0 (zeros 7 7) \<and>
   snd (snd (Diffusion_forward ceig_ex vdiff_ex sdiff_ex (Diffusion_init (Fin 0)) []
               (zeros 5 3) (zeros 5 5) (Some (zeros 7 7)) ''spectral''))
     = Inl (AssertionError dim_msg) \<and>
   snd (snd (Diffusion_forward ceig_ex vdiff_ex sdiff_ex (Diffusion_init (Fin 0)) []
               (zeros 7 3) (zeros 7 7) (Some (zeros 7 7)) ''spectral''))
     = Inr (zeros 7 3)"
  using vector_diffusion_dimension_check [of "zeros 7 7" "zeros 5 3" ceig_ex vdiff_ex sdiff_ex
          "Diffusion_init (Fin 0)" "[]" "zeros 5 5" "''spectral''"]
        vector_diffusion_dimension_check [of "zeros 7 7" "zeros 7 3" ceig_ex vdiff_ex sdiff_ex
          "Diffusion_init (Fin 0)" "[]" "zeros 7 7" "''spectral''"]
  by (simp add: zeros_def vdiff_ex_def)


section \<open>The checks of compare_attractors\<close>

lemma compare_attractors_TypeError: "compare_attractors d st = Inl TypeError"
  by (simp add: compare_attractors_def hasattr_def bind_err_def)

text \<open>
  C5.  On a dataset of three slices that carries every attribute \<open>postprocessing\<close> stores,
  and the distinct slices 1 and 0, \<open>compare_attractors\<close> raises \<open>TypeError\<close>: the attribute
  name given to \<open>hasattr\<close> is a tuple.  The later checks alone, on the same input, reject the
  pair: the bound on the source is \<open>s < n_slices - 2\<close>.
\<close>

theorem compare_attractors_valid_fails:
  "compare_attractors data_ex (1, 0) = Inl TypeError \<and>
   slice_checks data_ex (1, 0)
     = Inl (AssertionError ''Source and target must be < number of slices!'')"
  by (simp add: compare_attractors_TypeError)
     (simp add: slice_checks_def data_ex_def py_index_def py_assert_def bind_err_def Let_def)


section \<open>Reading tensors built from index functions\<close>

lemma at2_mk2: "b < n \<Longrightarrow> c < m \<Longrightarrow> at2 (mk2 n m f) b c = f b c"
proof -
  assume b: "b < n" and c: "c < m"
  have "b * m + c < Suc b * m" using c by simp
  also have "\<dots> \<le> n * m" using b by (simp only: mult_le_mono1 Suc_leI)
  finally have lt: "b * m + c < n * m" .
  show ?thesis using lt c by (simp add: at2_def mk2_def)
qed

lemma shape_mk2 [simp]: "shape0 (mk2 n m f) = n" "shape1 (mk2 n m f) = m"
  by (simp_all add: mk2_def)

lemma dim_mk3 [simp]: "dim0 (mk3 n m l f) = n" "dim1 (mk3 n m l f) = m" "dim2 (mk3 n m l f) = l"
  by (simp_all add: mk3_def)

lemma at3_mk3: "b < n \<Longrightarrow> k < m \<Longrightarrow> c < l \<Longrightarrow> at3 (mk3 n m l f) b k c = f b k c"
proof -
  assume b: "b < n" and k: "k < m" and c: "c < l"
  let ?i = "(b * m + k) * l + c"
  have "b * m + k < Suc b * m" using k by simp
  also have "\<dots> \<le> n * m" using b by (simp only: mult_le_mono1 Suc_leI)
  finally have bk: "b * m + k < n * m" .
  have "?i < Suc (b * m + k) * l" using c by simp
  also have "\<dots> \<le> (n * m) * l" using bk by (simp only: mult_le_mono1 Suc_leI)
  finally have lt: "?i < n * m * l" .
  have d1: "?i div l = b * m + k" using c by simp
  have d2: "?i div (m * l) = b"
  proof -
    have "?i div (m * l) = (?i div l) div m"
      by (simp add: div_mult2_eq mult.commute)
    then show ?thesis using d1 k by simp
  qed
  have d3: "?i mod l = c" using c by simp
  have d4: "(?i div l) mod m = k" using d1 k by simp
  show ?thesis
    unfolding at3_def mk3_def using lt d2 d3 d4 by simp
qed

lemma sum_list_upt_lessThan: "sum_list (map f [0..<n]) = (\<Sum>i<n. f i)"
  by (simp add: interv_sum_list_conv_sum_set_nat atLeast0LessThan)

lemma those_err_map_Inr:
  "(\<And>j. j \<in> set xs \<Longrightarrow> f j = Inr (g j)) \<Longrightarrow> those_err (map f xs) = Inr (map g xs)"
  by (induction xs) (simp_all add: bind_err_def)

lemma concat_blocks_nth:
  "(\<And>b. b < n \<Longrightarrow> length (f b) = m) \<Longrightarrow> b < n \<Longrightarrow> i < m
     \<Longrightarrow> concat (map f [0..<n]) ! (b * m + i) = f b ! i"
proof (induction n)
  case 0
  then show ?case by simp
next
  case (Suc n)
  have len: "length (concat (map f [0..<n])) = n * m"
    using Suc.prems(1) by (induction n) simp_all
  show ?case
  proof (cases "b < n")
    case True
    have "b * m + i < Suc b * m" using Suc.prems(3) by simp
    also have "\<dots> \<le> n * m" using True by (simp only: mult_le_mono1 Suc_leI)
    finally have "b * m + i < n * m" .
    then show ?thesis using Suc True len by (simp add: nth_append)
  next
    case False
    then have "b = n" using Suc.prems(2) by simp
    then show ?thesis using len by (simp add: nth_append)
  qed
qed


section \<open>InnerProductFeatures with identity weights\<close>

lemma bidx_lt: "i < n \<Longrightarrow> bidx n i = i"
  by (simp add: bidx_def)

lemma stack2_same:
  assumes "ts \<noteq> []" "\<forall>u\<in>set ts. shape0 u = n \<and> shape1 u = m"
  shows "stack2 ts = Inr (mk3 n m (length ts) (\<lambda>b k j. at2 (ts ! j) b k))"
proof (cases ts)
  case Nil
  with assms(1) show ?thesis by simp
next
  case (Cons t rest)
  from assms(2) have t: "shape0 t = n" "shape1 t = m"
    unfolding Cons by simp_all
  from assms(2) have rest: "list_all (\<lambda>u. shape0 u = shape0 t \<and> shape1 u = shape1 t) rest"
    unfolding Cons list_all_iff t by simp
  have "stack2 (t # rest)
          = Inr (mk3 (shape0 t) (shape1 t) (length (t # rest)) (\<lambda>b k j. at2 ((t # rest) ! j) b k))"
    using rest by (simp add: stack2_def)
  then show ?thesis unfolding Cons t .
qed

lemma reshape_rows_id: "0 < shape0 t \<Longrightarrow> reshape_rows t (shape0 t) = Inr t"
  by (simp add: reshape_rows_def)

lemma sum_delta_upt:
  "k < n \<Longrightarrow> sum_list (map (\<lambda>l. g l * (if k = l then 1 else 0)) [0..<n]) = (g k :: real)"
  by (simp add: sum_list_upt_lessThan sum.delta' if_distrib [of "\<lambda>v. g _ * v"] cong: if_cong)

lemma py_index_replicate: "j < n \<Longrightarrow> py_index (replicate n v) (int j) = Inr v"
  by (simp add: py_index_def)

lemma linear_eye:
  assumes "shape1 inp = D"
  shows "linear (eye D) inp
           = Inr (mk2 (shape0 inp) D
                    (\<lambda>b k. sum_list (map (\<lambda>l. at2 inp b l * at2 (eye D) k l) [0..<D])))"
  using assms by (simp add: linear_def eye_def)

lemma at2_linear_eye:
  assumes "b < V" "k < D"
  shows "at2 (mk2 V D (\<lambda>b k. sum_list (map (\<lambda>l. at2 inp b l * at2 (eye D) k l) [0..<D]))) b k
           = at2 inp b k"
proof -
  have "sum_list (map (\<lambda>l. at2 inp b l * at2 (eye D) k l) [0..<D])
          = sum_list (map (\<lambda>l. at2 inp b l * (if k = l then 1 else 0)) [0..<D])"
    using assms(2) by (intro arg_cong [where f = sum_list] map_cong) (simp_all add: eye_def at2_mk2)
  then show ?thesis using assms by (simp add: at2_mk2 sum_delta_upt)
qed

lemma ipf_vector_identity:
  assumes O: "ipf_O self = replicate (ipf_C self) (eye (ipf_D self))"
    and C: "dim2 x = ipf_C self" and D: "dim1 x = ipf_D self"
    and V: "0 < dim0 x" and Cpos: "0 < ipf_C self"
  shows "\<exists>out. ipf_vector self x = Inr out \<and> shape0 out = dim0 x \<and> shape1 out = ipf_C self \<and>
           (\<forall>b<dim0 x. \<forall>i<ipf_C self.
              at2 out b i = (\<Sum>j<ipf_C self. \<Sum>k<ipf_D self. at3 x b k i * at3 x b k j))"
proof -
  define Cn where "Cn = ipf_C self"
  define Dn where "Dn = ipf_D self"
  define Vn where "Vn = dim0 x"
  define lin where "lin = (\<lambda>j. mk2 Vn Dn
      (\<lambda>b k. sum_list (map (\<lambda>l. at2 (select_last x j) b l * at2 (eye Dn) k l) [0..<Dn])))"
  define Ox3 where "Ox3 = mk3 Vn Dn Cn (\<lambda>b k j. at2 (map lin [0..<Cn] ! j) b k)"
  define xOx where "xOx = mk2 Vn Cn
      (\<lambda>b i. sum_list (map (\<lambda>k. sum_list (map (\<lambda>j.
          at3 x (bidx Vn b) (bidx Dn k) i * at3 Ox3 (bidx Vn b) (bidx Dn k) j) [0..<Cn])) [0..<Dn]))"
  have step1: "those_err (map (\<lambda>j. bind_err (py_index (ipf_O self) (int j))
                 (\<lambda>W. linear W (select_last x j))) [0..<Cn]) = Inr (map lin [0..<Cn])"
  proof (rule those_err_map_Inr)
    fix j assume "j \<in> set [0..<Cn]"
    then have j: "j < Cn" by simp
    have "shape1 (select_last x j) = Dn" by (simp add: select_last_def D Dn_def)
    then have "linear (eye Dn) (select_last x j) = Inr (lin j)"
      by (simp add: linear_eye lin_def select_last_def Vn_def)
    then show "bind_err (py_index (ipf_O self) (int j)) (\<lambda>W. linear W (select_last x j)) = Inr (lin j)"
      using j by (simp add: O Cn_def [symmetric] Dn_def [symmetric] py_index_replicate bind_err_def)
  qed
  have step2: "stack2 (map lin [0..<Cn]) = Inr Ox3"
  proof -
    have "map lin [0..<Cn] \<noteq> []" using Cpos by (simp add: Cn_def)
    moreover have "\<forall>u\<in>set (map lin [0..<Cn]). shape0 u = Vn \<and> shape1 u = Dn"
      by (simp add: lin_def)
    ultimately have "stack2 (map lin [0..<Cn])
        = Inr (mk3 Vn Dn (length (map lin [0..<Cn])) (\<lambda>b k j. at2 (map lin [0..<Cn] ! j) b k))"
      by (rule stack2_same)
    then show ?thesis by (simp add: Ox3_def)
  qed
  have dims: "dim0 Ox3 = dim0 x" "dim1 Ox3 = dim1 x" "dim2 Ox3 = Cn"
    by (simp_all add: Ox3_def Vn_def Dn_def D)
  have step3: "einsum_bki_bkj_bi x Ox3 = Inr xOx"
    by (simp add: einsum_bki_bkj_bi_def broadcast_dim_def dims xOx_def C Cn_def D Dn_def Vn_def)
  have step4: "reshape_rows xOx (dim0 x) = Inr xOx"
    using reshape_rows_id [of xOx] V by (simp add: xOx_def Vn_def)
  have run: "ipf_vector self x = Inr xOx"
    using step1 step2 step3 step4
    by (simp add: ipf_vector_def C Cn_def [symmetric] bind_err_def)
  have entries: "at2 xOx b i = (\<Sum>j<Cn. \<Sum>k<Dn. at3 x b k i * at3 x b k j)"
    if b: "b < Vn" and i: "i < Cn" for b i
  proof -
    have ox: "at3 Ox3 b k j = at3 x b k j" if k: "k < Dn" and j: "j < Cn" for k j
    proof -
      have "at3 Ox3 b k j = at2 (lin j) b k"
        using b k j by (simp add: Ox3_def at3_mk3)
      also have "\<dots> = at2 (select_last x j) b k"
        unfolding lin_def using b k by (rule at2_linear_eye)
      also have "\<dots> = at3 x b k j"
        using b k by (simp add: select_last_def at2_mk2 Vn_def [symmetric] D Dn_def [symmetric])
      finally show ?thesis .
    qed
    have "at2 xOx b i
            = (\<Sum>k<Dn. \<Sum>j<Cn. at3 x b (bidx Dn k) i * at3 Ox3 b (bidx Dn k) j)"
      using b i by (simp add: xOx_def at2_mk2 sum_list_upt_lessThan bidx_lt)
    also have "\<dots> = (\<Sum>k<Dn. \<Sum>j<Cn. at3 x b k i * at3 Ox3 b k j)"
      by (rule sum.cong) (simp_all add: bidx_lt)
    also have "\<dots> = (\<Sum>k<Dn. \<Sum>j<Cn. at3 x b k i * at3 x b k j)"
      using ox by simp
    also have "\<dots> = (\<Sum>j<Cn. \<Sum>k<Dn. at3 x b k i * at3 x b k j)"
      by (rule sum.swap)
    finally show ?thesis .
  qed
  have "shape0 xOx = dim0 x" "shape1 xOx = ipf_C self"
    by (simp_all add: xOx_def Vn_def Cn_def)
  then show ?thesis
    using run entries by (auto simp: Vn_def Cn_def Dn_def)
qed

lemma idx3_bound: "b < n \<Longrightarrow> k < m \<Longrightarrow> c < l \<Longrightarrow> (b * m + k) * l + c < n * m * (l::nat)"
proof -
  assume b: "b < n" and k: "k < m" and c: "c < l"
  have "b * m + k < Suc b * m" using k by simp
  also have "\<dots> \<le> n * m" using b by (simp only: mult_le_mono1 Suc_leI)
  finally have bk: "b * m + k < n * m" .
  have "(b * m + k) * l + c < Suc (b * m + k) * l" using c by simp
  also have "\<dots> \<le> (n * m) * l" using bk by (simp only: mult_le_mono1 Suc_leI)
  finally show ?thesis .
qed

lemma concat_fibers: "concat (map (\<lambda>i. take m (drop (i * m) xs)) [0..<n]) = take (n * m) xs"
proof (induction n)
  case 0
  then show ?case by simp
next
  case (Suc n)
  have "take (n * m + m) xs = take (n * m) xs @ take m (drop (n * m) xs)"
    by (rule take_add)
  then show ?case using Suc by (simp add: add.commute)
qed

lemma cat2_single:
  "cat2 [x] = Inr (x\<lparr>dat3 := take (dim0 x * dim1 x * dim2 x) (dat3 x)\<rparr>)"
  by (simp add: cat2_def fiber_def concat_fibers)

lemma init_fields:
  "ipf_C (InnerProductFeatures_init C D w0) = C"
  "ipf_D (InnerProductFeatures_init C D w0) = D"
  "ipf_O (InnerProductFeatures_init C D w0) = replicate C (eye D)"
  by (simp_all add: InnerProductFeatures_init_def reset_parameters_def
        map_replicate_const comp_def)

lemma reshape3_ok:
  assumes "0 < shape0 x" "0 < D" "shape1 x = D * C"
  shows "reshape3 x D = Inr \<lparr>dim0 = shape0 x, dim1 = D, dim2 = C, dat3 = dat x\<rparr>"
proof -
  have eq: "shape0 x * shape1 x = (shape0 x * D) * C" using assms(3) by simp
  have pos: "0 < shape0 x * D" using assms by simp
  have "(shape0 x * shape1 x) mod (shape0 x * D) = 0" unfolding eq by simp
  moreover have "(shape0 x * shape1 x) div (shape0 x * D) = C"
    unfolding eq using pos by simp
  ultimately show ?thesis using pos by (simp add: reshape3_def Let_def)
qed

text \<open>
  C8.  For \<open>D > 1\<close>, a freshly constructed reducer (every weight the identity) and an
  input of shape \<open>V \<times> (C * D)\<close> with at least one row and one channel, \<open>forward\<close> returns a
  \<open>V \<times> C\<close> matrix whose entry for node \<open>b\<close> and feature \<open>i\<close> is the sum over the channels
  \<open>j\<close> of the inner products of the channel vectors \<open>i\<close> and \<open>j\<close>.  Component \<open>k\<close> of
  channel \<open>i\<close> is column \<open>k * C + i\<close> of the input.
\<close>

theorem ipf_identity_inner_products:
  assumes D: "1 < D" and C: "0 < C" and V: "0 < shape0 x" and sh: "shape1 x = D * C"
  shows "\<exists>out. InnerProductFeatures_forward (InnerProductFeatures_init C D w0) (Single x) = Inr out \<and>
           shape0 out = shape0 x \<and> shape1 out = C \<and>
           (\<forall>b<shape0 x. \<forall>i<C.
              at2 out b i = (\<Sum>j<C. \<Sum>k<D. at2 x b (k * C + i) * at2 x b (k * C + j)))"
proof -
  define self where "self = InnerProductFeatures_init C D w0"
  define Vn where "Vn = shape0 x"
  define xc where "xc = \<lparr>dim0 = Vn, dim1 = D, dim2 = C, dat3 = take (Vn * D * C) (dat x)\<rparr>"
  have self: "ipf_C self = C" "ipf_D self = D" "ipf_O self = replicate C (eye D)"
    by (simp_all add: self_def init_fields)
  have r: "reshape3 x D = Inr \<lparr>dim0 = Vn, dim1 = D, dim2 = C, dat3 = dat x\<rparr>"
    using reshape3_ok [of x D C] D V sh by (simp add: Vn_def)
  have c: "cat2 [\<lparr>dim0 = Vn, dim1 = D, dim2 = C, dat3 = dat x\<rparr>] = Inr xc"
    by (simp add: cat2_single xc_def)
  have fwd: "InnerProductFeatures_forward self (Single x) = ipf_vector self xc"
    using D r c by (simp add: InnerProductFeatures_forward_def self bind_err_def)
  have rd: "at3 xc b k i = at2 x b (k * C + i)" if "b < Vn" "k < D" "i < C" for b k i
  proof -
    have "(b * D + k) * C + i < Vn * D * C" using that by (rule idx3_bound)
    moreover have "(b * D + k) * C + i = b * (D * C) + (k * C + i)" by (simp add: algebra_simps)
    ultimately show ?thesis by (simp add: at3_def at2_def xc_def sh add.assoc)
  qed
  obtain out where out: "ipf_vector self xc = Inr out" "shape0 out = dim0 xc" "shape1 out = ipf_C self"
    and ent: "\<forall>b<dim0 xc. \<forall>i<ipf_C self.
                at2 out b i = (\<Sum>j<ipf_C self. \<Sum>k<ipf_D self. at3 xc b k i * at3 xc b k j)"
    using ipf_vector_identity [of self xc] self C V by (auto simp: xc_def Vn_def)
  have "at2 out b i = (\<Sum>j<C. \<Sum>k<D. at2 x b (k * C + i) * at2 x b (k * C + j))"
    if b: "b < Vn" and i: "i < C" for b i
  proof -
    have "at2 out b i = (\<Sum>j<C. \<Sum>k<D. at3 xc b k i * at3 xc b k j)"
      using ent b i by (simp add: self xc_def)
    also have "\<dots> = (\<Sum>j<C. \<Sum>k<D. at2 x b (k * C + i) * at2 x b (k * C + j))"
      using rd b i by simp
    finally show ?thesis .
  qed
  then show ?thesis
    using fwd out by (simp add: self_def [symmetric] self xc_def Vn_def)
qed

theorem ipf_identity_inner_products_witness:
  "(1::nat) < 2 \<and> (0::nat) < 2 \<and> 0 < shape0 x1234 \<and> shape1 x1234 = 2 * 2 \<and>
   (\<exists>out. InnerProductFeatures_forward (InnerProductFeatures_init 2 2 (\<lambda>i. zeros 2 2)) (Single x1234)
             = Inr out \<and>
          shape0 out = 1 \<and> shape1 out = 2 \<and> at2 out 0 0 = 24 \<and> at2 out 0 1 = 34)"
proof -
  have sh: "0 < shape0 x1234" "shape1 x1234 = 2 * 2" by (simp_all add: x1234_def)
  obtain out where
    r: "InnerProductFeatures_forward (InnerProductFeatures_init 2 2 (\<lambda>i. zeros 2 2)) (Single x1234) = Inr out"
       "shape0 out = shape0 x1234" "shape1 out = 2"
    and e: "\<forall>b<shape0 x1234. \<forall>i<2.
              at2 out b i = (\<Sum>j<2. \<Sum>k<2. at2 x1234 b (k * 2 + i) * at2 x1234 b (k * 2 + j))"
    using ipf_identity_inner_products [of 2 2 x1234 "\<lambda>i. zeros 2 2"] sh by auto
  have "at2 out 0 0 = 24" "at2 out 0 1 = 34"
    using e by (simp_all add: x1234_def at2_def numeral_2_eq_2)
  then show ?thesis using r sh by (auto simp: x1234_def)
qed


section \<open>The channel-count check\<close>

lemma bind_err_neq:
  "r \<noteq> Inl e \<Longrightarrow> (\<And>v. f v \<noteq> Inl e) \<Longrightarrow> bind_err r f \<noteq> Inl e"
  by (cases r) (simp_all add: bind_err_def)

lemma those_err_no_assert:
  "(\<And>j. j \<in> set xs \<Longrightarrow> f j \<noteq> Inl (AssertionError m))
     \<Longrightarrow> those_err (map f xs) \<noteq> Inl (AssertionError m)"
  by (induction xs) (auto simp: bind_err_def split: sum.splits)

lemma ipf_vector_no_assert:
  assumes "dim2 x = ipf_C self"
  shows "ipf_vector self x \<noteq> Inl (AssertionError channels_msg)"
proof -
  have lin: "bind_err (py_index (ipf_O self) (int j)) (\<lambda>W. linear W (select_last x j))
               \<noteq> Inl (AssertionError channels_msg)" for j
    by (simp add: bind_err_def py_index_def linear_def split: sum.splits if_splits)
  have a: "those_err (map (\<lambda>j. bind_err (py_index (ipf_O self) (int j))
              (\<lambda>W. linear W (select_last x j))) [0..<ipf_C self]) \<noteq> Inl (AssertionError channels_msg)"
    by (rule those_err_no_assert) (rule lin)
  have b: "stack2 ts \<noteq> Inl (AssertionError channels_msg)" for ts
    by (simp add: stack2_def split: list.splits)
  have c: "einsum_bki_bkj_bi x y \<noteq> Inl (AssertionError channels_msg)" for y
    by (simp add: einsum_bki_bkj_bi_def split: option.split)
  have d: "reshape_rows t n \<noteq> Inl (AssertionError channels_msg)" for t n
    by (simp add: reshape_rows_def Let_def)
  have "bind_err (those_err (map (\<lambda>j. bind_err (py_index (ipf_O self) (int j))
                 (\<lambda>W. linear W (select_last x j))) [0..<ipf_C self]))
          (\<lambda>Ox. bind_err (stack2 Ox) (\<lambda>Ox3. bind_err (einsum_bki_bkj_bi x Ox3)
                  (\<lambda>xOx. reshape_rows xOx (dim0 x)))) \<noteq> Inl (AssertionError channels_msg)"
    by (intro bind_err_neq a b c d)
  then show ?thesis
    using assms by (simp add: ipf_vector_def)
qed

lemma cat2_dim2: "cat2 ts = Inr x \<Longrightarrow> dim2 x = sum_list (map dim2 ts)"
  by (auto simp: cat2_def split: list.splits if_splits)

lemma sqrt_25: "sqrt 25 = 5"
  by (rule real_sqrt_unique) simp_all

lemma upt_0_2: "[0..<2] = [0, 1]"
  by (simp add: numeral_2_eq_2)

lemma cat1_no_assert: "cat1 ts \<noteq> Inl (AssertionError m)"
  by (simp add: cat1_def split: list.split)

lemma reshape3_no_assert: "reshape3 t D \<noteq> Inl (AssertionError m)"
  by (simp add: reshape3_def Let_def)

lemma ipf_scalar_no_assert:
  assumes "ipf_D self = 1"
  shows "InnerProductFeatures_forward self inp \<noteq> Inl (AssertionError channels_msg)"
proof -
  have "bind_err (those_err (map (\<lambda>t. reshape3 t 1) (case inp of Single t \<Rightarrow> [t] | Many ts \<Rightarrow> ts)))
          (\<lambda>x3. cat1 (map norm_dim2 x3)) \<noteq> Inl (AssertionError channels_msg)"
    by (intro bind_err_neq those_err_no_assert reshape3_no_assert cat1_no_assert)
  then show ?thesis
    using assms by (simp add: InnerProductFeatures_forward_def)
qed

text \<open>
  C9, as amended.  When \<open>D\<close> is not 1 and the inputs reshape and concatenate, \<open>forward\<close>
  raises the channel-count assertion exactly when the concatenated channel count, the sum
  of the channel counts of the reshaped inputs, differs from \<open>C\<close>.  When \<open>D\<close> is 1 the
  assertion is never raised.
\<close>

theorem ipf_channel_check:
  "(ipf_D self = 1 \<longrightarrow>
      InnerProductFeatures_forward self inp \<noteq> Inl (AssertionError channels_msg)) \<and>
   (ipf_D self \<noteq> 1 \<longrightarrow>
      (\<forall>x3s x.
         those_err (map (\<lambda>t. reshape3 t (ipf_D self))
                        (case inp of Single t \<Rightarrow> [t] | Many ts \<Rightarrow> ts)) = Inr x3s \<longrightarrow>
         cat2 x3s = Inr x \<longrightarrow>
           dim2 x = sum_list (map dim2 x3s) \<and>
           (InnerProductFeatures_forward self inp = Inl (AssertionError channels_msg))
             = (dim2 x \<noteq> ipf_C self)))"
proof (intro conjI impI allI)
  assume "ipf_D self = 1"
  then show "InnerProductFeatures_forward self inp \<noteq> Inl (AssertionError channels_msg)"
    by (rule ipf_scalar_no_assert)
next
  fix x3s x
  assume D: "ipf_D self \<noteq> 1"
    and r: "those_err (map (\<lambda>t. reshape3 t (ipf_D self))
                          (case inp of Single t \<Rightarrow> [t] | Many ts \<Rightarrow> ts)) = Inr x3s"
    and c: "cat2 x3s = Inr x"
  show "dim2 x = sum_list (map dim2 x3s)"
    using c by (rule cat2_dim2)
  have fwd: "InnerProductFeatures_forward self inp = ipf_vector self x"
    using D r c by (simp add: InnerProductFeatures_forward_def bind_err_def)
  show "(InnerProductFeatures_forward self inp = Inl (AssertionError channels_msg))
          = (dim2 x \<noteq> ipf_C self)"
  proof (cases "dim2 x = ipf_C self")
    case True
    then show ?thesis using ipf_vector_no_assert [of x self] by (simp add: fwd)
  next
    case False
    then show ?thesis by (simp add: fwd ipf_vector_def)
  qed
qed

theorem ipf_channel_check_witness:
  "ipf_D (InnerProductFeatures_init 3 2 (\<lambda>i. zeros 2 2)) \<noteq> 1 \<and>
   InnerProductFeatures_forward (InnerProductFeatures_init 3 2 (\<lambda>i. zeros 2 2)) (Single x1234)
     = Inl (AssertionError channels_msg) \<and>
   InnerProductFeatures_forward (InnerProductFeatures_init 2 2 (\<lambda>i. zeros 2 2)) (Single x1234)
     \<noteq> Inl (AssertionError channels_msg) \<and>
   ipf_D (InnerProductFeatures_init 5 1 (\<lambda>i. zeros 1 1)) = 1 \<and>
   InnerProductFeatures_forward (InnerProductFeatures_init 5 1 (\<lambda>i. zeros 1 1)) (Single x1234)
     \<noteq> Inl (AssertionError channels_msg)"
proof -
  let ?r = "\<lparr>dim0 = 1, dim1 = 2, dim2 = 2, dat3 = [1, 2, 3, 4]\<rparr>"
  have r: "reshape3 x1234 2 = Inr ?r"
    by (simp add: reshape3_def x1234_def)
  have c: "cat2 [?r] = Inr ?r"
    by (simp add: cat2_single)
  have h: "those_err (map (\<lambda>t. reshape3 t (ipf_D (InnerProductFeatures_init n 2 (\<lambda>i. zeros 2 2))))
             (case Single x1234 of Single t \<Rightarrow> [t] | Many ts \<Rightarrow> ts)) = Inr [?r]" for n
    by (simp add: init_fields r bind_err_def)
  have D: "ipf_D (InnerProductFeatures_init n 2 (\<lambda>i. zeros 2 2)) \<noteq> 1" for n
    by (simp add: init_fields)
  note w = ipf_channel_check [THEN conjunct2, rule_format, OF D h c]
  have a: "InnerProductFeatures_forward (InnerProductFeatures_init 3 2 (\<lambda>i. zeros 2 2)) (Single x1234)
             = Inl (AssertionError channels_msg)"
    using w [of 3] by (simp add: init_fields)
  have b: "InnerProductFeatures_forward (InnerProductFeatures_init 2 2 (\<lambda>i. zeros 2 2)) (Single x1234)
             \<noteq> Inl (AssertionError channels_msg)"
    using w [of 2] by (simp add: init_fields)
  have D1: "ipf_D (InnerProductFeatures_init 5 1 (\<lambda>i. zeros 1 1)) = 1"
    by (simp add: init_fields)
  have s: "InnerProductFeatures_forward (InnerProductFeatures_init 5 1 (\<lambda>i. zeros 1 1)) (Single x1234)
             \<noteq> Inl (AssertionError channels_msg)"
    using ipf_channel_check [THEN conjunct1, rule_format, OF D1] .
  show ?thesis
    using D [of 3] a b D1 s by (intro conjI)
qed

text \<open>
  C9 as stated fails for \<open>D = 1\<close>: the branch for scalar signals returns before the
  assertion.  With \<open>C = 5\<close> and an input of two channels the call returns a result.
\<close>

theorem ipf_scalar_skips_channel_check:
  "shape1 x34 \<noteq> ipf_C (InnerProductFeatures_init 5 1 (\<lambda>i. zeros 1 1)) \<and>
   InnerProductFeatures_forward (InnerProductFeatures_init 5 1 (\<lambda>i. zeros 1 1)) (Single x34)
     = Inr \<lparr>shape0 = 1, shape1 = 1, dat = [5]\<rparr>"
  by (simp add: InnerProductFeatures_forward_def init_fields x34_def reshape3_def bind_err_def
        norm_dim2_def mk2_def cat1_def row_def at3_def sqrt_25 upt_0_2)


section \<open>Scalar signals: the norm over the channels\<close>

lemma cat1_same:
  assumes "ts \<noteq> []" "\<forall>u\<in>set ts. shape0 u = n"
  shows "cat1 ts = Inr \<lparr>shape0 = n, shape1 = sum_list (map shape1 ts),
                        dat = concat (map (\<lambda>b. concat (map (\<lambda>u. row u b) ts)) [0..<n])\<rparr>"
proof (cases ts)
  case Nil
  with assms(1) show ?thesis by simp
next
  case (Cons t rest)
  from assms(2) have t: "shape0 t = n"
    unfolding Cons by simp
  from assms(2) have rest: "list_all (\<lambda>u. shape0 u = shape0 t) rest"
    unfolding Cons list_all_iff t by simp
  show ?thesis
    unfolding Cons using rest t by (simp add: cat1_def)
qed

lemma row_mk2_col: "b < n \<Longrightarrow> row (mk2 n 1 f) b = [f b 0]"
proof -
  assume b: "b < n"
  let ?xs = "map (\<lambda>idx. f (idx div 1) (idx mod 1)) [0..<n * 1]"
  have len: "b < length ?xs" using b by simp
  have "drop b ?xs = ?xs ! b # drop (Suc b) ?xs"
    using len by (rule Cons_nth_drop_Suc [symmetric])
  then have "take 1 (drop b ?xs) = [?xs ! b]" by simp
  moreover have "?xs ! b = f b 0" using b by simp
  ultimately show ?thesis by (simp add: row_def mk2_def)
qed

lemma reshape3_scalar:
  "0 < shape0 t \<Longrightarrow> reshape3 t 1 = Inr \<lparr>dim0 = shape0 t, dim1 = 1, dim2 = shape1 t, dat3 = dat t\<rparr>"
  by (simp add: reshape3_def)

text \<open>
  C3, as amended.  With \<open>D = 1\<close> and a non-empty list of inputs that all have \<open>V > 0\<close>
  rows, \<open>forward\<close> returns a matrix with \<open>V\<close> rows and one column per list entry.  The
  entry for node \<open>b\<close> and list entry \<open>i\<close> is the 2-norm of row \<open>b\<close> of that input over all its
  channels; it is non-negative, and it is the absolute value of the input when the list
  entry has a single channel.
\<close>

theorem ipf_scalar_norm:
  assumes D: "ipf_D self = 1"
    and xs: "xs = (case inp of Single t \<Rightarrow> [t] | Many ts \<Rightarrow> ts)"
    and ne: "xs \<noteq> []"
    and rows: "\<forall>t\<in>set xs. shape0 t = V"
    and V: "0 < V"
  shows "\<exists>out. InnerProductFeatures_forward self inp = Inr out \<and>
           shape0 out = V \<and> shape1 out = length xs \<and>
           (\<forall>b<V. \<forall>i<length xs.
              at2 out b i = sqrt (\<Sum>c<shape1 (xs ! i). (at2 (xs ! i) b c)\<^sup>2) \<and>
              0 \<le> at2 out b i \<and>
              (shape1 (xs ! i) = 1 \<longrightarrow> at2 out b i = \<bar>at2 (xs ! i) b 0\<bar>))"
proof -
  define r3 where "r3 = (\<lambda>t::tensor. \<lparr>dim0 = shape0 t, dim1 = 1, dim2 = shape1 t, dat3 = dat t\<rparr>)"
  define nrm where "nrm = (\<lambda>(t::tensor) b. sqrt (\<Sum>c<shape1 t. (at2 t b c)\<^sup>2))"
  define us where "us = map (\<lambda>t. norm_dim2 (r3 t)) xs"
  define out where "out = \<lparr>shape0 = V, shape1 = sum_list (map shape1 us),
      dat = concat (map (\<lambda>b. concat (map (\<lambda>u. row u b) us)) [0..<V])\<rparr>"
  have step1: "those_err (map (\<lambda>t. reshape3 t (ipf_D self)) xs) = Inr (map r3 xs)"
  proof (rule those_err_map_Inr)
    fix t assume "t \<in> set xs"
    then have "0 < shape0 t" using rows V by simp
    then show "reshape3 t (ipf_D self) = Inr (r3 t)"
      using reshape3_scalar [of t] by (simp add: D r3_def)
  qed
  have nd: "norm_dim2 (r3 t) = mk2 (shape0 t) 1 (\<lambda>b k. sqrt (sum_list (map (\<lambda>c. (at3 (r3 t) b k c)\<^sup>2) [0..<shape1 t])))" for t
    by (simp add: norm_dim2_def r3_def)
  have at3r: "at3 (r3 t) b 0 c = at2 t b c" for t b c
    by (simp add: at3_def at2_def r3_def)
  have us_shape: "\<forall>u\<in>set us. shape0 u = V"
    using rows by (simp add: us_def nd)
  have us_ne: "us \<noteq> []" using ne by (simp add: us_def)
  have step2: "cat1 us = Inr out"
    unfolding out_def using us_ne us_shape by (rule cat1_same)
  have fwd: "InnerProductFeatures_forward self inp = Inr out"
    using step1 step2
    by (simp add: InnerProductFeatures_forward_def xs [symmetric] D bind_err_def us_def comp_def)
  have cols: "sum_list (map shape1 us) = length xs"
    by (simp add: us_def nd comp_def sum_list_triv)
  have rowb: "concat (map (\<lambda>u. row u b) us) = map (\<lambda>t. nrm t b) xs" if b: "b < V" for b
  proof -
    have "row (norm_dim2 (r3 t)) b = [nrm t b]" if "t \<in> set xs" for t
    proof -
      have "b < shape0 t" using that rows b by simp
      then have "row (norm_dim2 (r3 t)) b
          = [sqrt (sum_list (map (\<lambda>c. (at3 (r3 t) b 0 c)\<^sup>2) [0..<shape1 t]))]"
        unfolding nd by (rule row_mk2_col)
      then show ?thesis
        by (simp add: at3r sum_list_upt_lessThan nrm_def)
    qed
    then have "map (\<lambda>u. row u b) us = map (\<lambda>t. [nrm t b]) xs"
      by (simp add: us_def)
    then show ?thesis by simp
  qed
  have entry: "at2 out b i = nrm (xs ! i) b" if b: "b < V" and i: "i < length xs" for b i
  proof -
    have "concat (map (\<lambda>b. concat (map (\<lambda>u. row u b) us)) [0..<V]) ! (b * length xs + i)
            = concat (map (\<lambda>u. row u b) us) ! i"
      using b i by (intro concat_blocks_nth) (simp_all add: rowb)
    then show ?thesis
      using b i by (simp add: at2_def out_def cols rowb)
  qed
  have single: "nrm t b = \<bar>at2 t b 0\<bar>" if "shape1 t = 1" for t b
    using that by (simp add: nrm_def)
  have nonneg: "0 \<le> nrm t b" for t b
    by (simp add: nrm_def sum_nonneg)
  show ?thesis
    using fwd cols entry single nonneg
    by (intro exI [of _ out]) (simp add: out_def nrm_def)
qed

theorem ipf_scalar_norm_witness:
  "ipf_D (InnerProductFeatures_init 2 1 (\<lambda>i. zeros 1 1)) = 1 \<and>
   [xm2, x34] \<noteq> [] \<and> shape0 xm2 = 1 \<and> shape0 x34 = 1 \<and>
   (\<exists>out. InnerProductFeatures_forward (InnerProductFeatures_init 2 1 (\<lambda>i. zeros 1 1))
             (Many [xm2, x34]) = Inr out \<and>
          shape0 out = 1 \<and> shape1 out = 2 \<and> at2 out 0 0 = 2 \<and> at2 out 0 1 = 5)"
proof -
  let ?self = "InnerProductFeatures_init 2 1 (\<lambda>i. zeros 1 1)"
  let ?xs = "[xm2, x34]"
  have D: "ipf_D ?self = 1" by (simp add: init_fields)
  have sh: "shape0 xm2 = 1" "shape0 x34 = 1" by (simp_all add: xm2_def x34_def)
  have "\<exists>out. InnerProductFeatures_forward ?self (Many ?xs) = Inr out \<and>
           shape0 out = 1 \<and> shape1 out = length ?xs \<and>
           (\<forall>b<1. \<forall>i<length ?xs.
              at2 out b i = sqrt (\<Sum>c<shape1 (?xs ! i). (at2 (?xs ! i) b c)\<^sup>2) \<and>
              0 \<le> at2 out b i \<and>
              (shape1 (?xs ! i) = 1 \<longrightarrow> at2 out b i = \<bar>at2 (?xs ! i) b 0\<bar>))"
  proof (rule ipf_scalar_norm)
    show "ipf_D ?self = 1" by (rule D)
    show "?xs = (case Many ?xs of Single t \<Rightarrow> [t] | Many ts \<Rightarrow> ts)" by simp
    show "?xs \<noteq> []" by simp
    show "\<forall>t\<in>set ?xs. shape0 t = 1" using sh by simp
    show "(0::nat) < 1" by simp
  qed
  then obtain out where
    r: "InnerProductFeatures_forward ?self (Many ?xs) = Inr out" "shape0 out = 1"
       "shape1 out = length ?xs"
    and e: "\<forall>b<1. \<forall>i<length ?xs.
              at2 out b i = sqrt (\<Sum>c<shape1 (?xs ! i). (at2 (?xs ! i) b c)\<^sup>2) \<and>
              0 \<le> at2 out b i \<and>
              (shape1 (?xs ! i) = 1 \<longrightarrow> at2 out b i = \<bar>at2 (?xs ! i) b 0\<bar>)"
    by (elim exE conjE)
  have "at2 out 0 0 = sqrt (\<Sum>c<shape1 xm2. (at2 xm2 0 c)\<^sup>2)"
    using e [rule_format, of 0 0] by simp
  then have e0: "at2 out 0 0 = 2"
    by (simp add: xm2_def at2_def)
  have "at2 out 0 1 = sqrt (\<Sum>c<shape1 x34. (at2 x34 0 c)\<^sup>2)"
    using e [rule_format, of 0 1] by simp
  then have e1: "at2 out 0 1 = 5"
    by (simp add: x34_def at2_def lessThan_Suc numeral_2_eq_2 sqrt_25)
  show ?thesis
    using D sh r e0 e1 by (intro conjI exI [of _ out]) simp_all
qed

text \<open>
  C3 as stated fails: with \<open>D = 1\<close> the norm runs over the channels of each list entry.
  Two inputs with one and two channels give two output columns, the second the norm 5 of
  the channels 3 and 4, not three columns of absolute values.
\<close>

theorem ipf_scalar_not_abs:
  "InnerProductFeatures_forward (InnerProductFeatures_init 2 1 (\<lambda>i. zeros 1 1)) (Many [xm2, x34])
     = Inr \<lparr>shape0 = 1, shape1 = 2, dat = [2, 5]\<rparr> \<and>
   InnerProductFeatures_forward (InnerProductFeatures_init 2 1 (\<lambda>i. zeros 1 1)) (Many [xm2, x34])
     \<noteq> Inr \<lparr>shape0 = 1, shape1 = 3, dat = [\<bar>- 2\<bar>, \<bar>3\<bar>, \<bar>4\<bar>]\<rparr>"
  by (simp add: InnerProductFeatures_forward_def init_fields x34_def xm2_def reshape3_def bind_err_def
        norm_dim2_def mk2_def cat1_def row_def at3_def sqrt_25 upt_0_2)


section \<open>AnisoConv: the aggregation step and the layout of the output\<close>

lemma bind_err_Inr: "bind_err r f = Inr y \<Longrightarrow> \<exists>v. r = Inr v \<and> f v = Inr y"
  by (cases r) (simp_all add: bind_err_def)

lemma view_cols_shape1: "view_cols y m = Inr z \<Longrightarrow> shape1 z = m"
  by (auto simp: view_cols_def Let_def split: if_splits)

lemma message_and_aggregate_shape1:
  assumes "message_and_aggregate mm K_t x = Inr y"
  shows "shape1 y = shape1 x"
proof -
  from assms obtain r where
    "bind_err (if r * shape1 x = 0
               then bind_err (py_floordiv_nat (shape0 x * shape1 x) (shape1 K_t)) (view_cols x)
               else Inr x)
       (\<lambda>x'. bind_err (mm K_t x') (\<lambda>y. view_cols y (shape1 x))) = Inr y"
    unfolding message_and_aggregate_def Let_def by (blast dest: bind_err_Inr)
  then obtain x' where "bind_err (mm K_t x') (\<lambda>y. view_cols y (shape1 x)) = Inr y"
    by (blast dest: bind_err_Inr)
  then obtain z where "view_cols z (shape1 x) = Inr y"
    by (blast dest: bind_err_Inr)
  then show ?thesis by (rule view_cols_shape1)
qed

lemma apply_kernel_shape1:
  assumes "apply_kernel toSp mm x Rb sz ei K = Inr y"
  shows "shape1 y = shape1 x"
proof -
  from assms obtain K' where
    "bind_err (toSp ei sz (transpose2 K')) (\<lambda>Ks. message_and_aggregate mm (transpose2 Ks) x) = Inr y"
    unfolding apply_kernel_def by (blast dest: bind_err_Inr)
  then obtain Ks where "message_and_aggregate mm (transpose2 Ks) x = Inr y"
    by (blast dest: bind_err_Inr)
  then show ?thesis by (rule message_and_aggregate_shape1)
qed

lemma those_err_Inr_nth:
  "those_err rs = Inr ys \<Longrightarrow> length ys = length rs \<and> (\<forall>i<length rs. rs ! i = Inr (ys ! i))"
proof (induction rs arbitrary: ys)
  case Nil
  then show ?case by simp
next
  case (Cons r rs)
  from Cons.prems obtain v where v: "r = Inr v"
    and "bind_err (those_err rs) (\<lambda>vs. Inr (v # vs)) = Inr ys"
    by (auto dest: bind_err_Inr)
  then obtain vs where vs: "those_err rs = Inr vs" and ys: "ys = v # vs"
    by (auto dest: bind_err_Inr)
  from Cons.IH [OF vs] have "length vs = length rs" "\<forall>i<length rs. rs ! i = Inr (vs ! i)"
    by simp_all
  then show ?case using v ys by (simp add: nth_Cons split: nat.split)
qed


lemma test_iff: "0 < n \<Longrightarrow> ((c mod n) * dm = 0) = (n dvd c \<or> dm = (0::nat))"
  by (auto simp: mod_eq_0_iff_dvd)

lemma maa_no_rows:
  "shape0 x = 0 \<Longrightarrow> message_and_aggregate matmul K_t x = Inl ZeroDivisionError"
  by (simp add: message_and_aggregate_def Let_def py_mod_def bind_err_def)

lemma maa_no_cols:
  "0 < shape0 x \<Longrightarrow> (shape1 K_t mod shape0 x) * shape1 x = 0 \<Longrightarrow> shape1 K_t = 0
     \<Longrightarrow> message_and_aggregate matmul K_t x = Inl ZeroDivisionError"
  by (simp add: message_and_aggregate_def Let_def py_mod_def py_floordiv_nat_def bind_err_def)

lemma maa_bad_view:
  assumes "0 < shape0 x" "(shape1 K_t mod shape0 x) * shape1 x = 0" "0 < shape1 K_t"
    and "(shape0 x * shape1 x) div shape1 K_t = 0
         \<or> \<not> (shape0 x * shape1 x) div shape1 K_t dvd shape0 x * shape1 x"
  shows "message_and_aggregate matmul K_t x = Inl RuntimeError"
  using assms
  by (auto simp: message_and_aggregate_def Let_def py_mod_def py_floordiv_nat_def bind_err_def
        view_cols_def mod_eq_0_iff_dvd)

lemma maa_regroup:
  assumes "0 < shape0 x" "(shape1 K_t mod shape0 x) * shape1 x = 0" "0 < shape1 K_t"
    and "0 < (shape0 x * shape1 x) div shape1 K_t"
    and "(shape0 x * shape1 x) div shape1 K_t dvd shape0 x * shape1 x"
  shows "message_and_aggregate matmul K_t x
           = bind_err (matmul K_t \<lparr>shape0 = (shape0 x * shape1 x) div ((shape0 x * shape1 x) div shape1 K_t),
                                  shape1 = (shape0 x * shape1 x) div shape1 K_t,
                                  dat = dat x\<rparr>)
               (\<lambda>y. if (shape0 y * shape1 y) mod shape1 x \<noteq> 0 then Inl RuntimeError
                    else Inr \<lparr>shape0 = (shape0 y * shape1 y) div shape1 x, shape1 = shape1 x,
                              dat = dat y\<rparr>)"
proof -
  have dm: "shape1 x \<noteq> 0" using assms(4) by (cases "shape1 x = 0") simp_all
  show ?thesis
    using assms dm
    by (simp add: message_and_aggregate_def Let_def py_mod_def py_floordiv_nat_def bind_err_def
          view_cols_def mod_eq_0_iff_dvd split: sum.split)
qed

lemma maa_as_is:
  assumes "0 < shape0 x" "(shape1 K_t mod shape0 x) * shape1 x \<noteq> 0"
  shows "message_and_aggregate matmul K_t x
           = bind_err (matmul K_t x)
               (\<lambda>y. if (shape0 y * shape1 y) mod shape1 x \<noteq> 0 then Inl RuntimeError
                    else Inr \<lparr>shape0 = (shape0 y * shape1 y) div shape1 x, shape1 = shape1 x,
                              dat = dat y\<rparr>)"
proof -
  have dm: "shape1 x \<noteq> 0" using assms(2) by (cases "shape1 x = 0") simp_all
  show ?thesis
    using assms dm
    by (simp add: message_and_aggregate_def Let_def py_mod_def bind_err_def view_cols_def
          split: sum.split)
qed

text \<open>
  C4, as amended.  With \<open>n\<close> rows and \<open>dim\<close> columns of \<open>x\<close> and \<open>c\<close> columns of \<open>K_t\<close>:
  no row raises a division by zero.  Otherwise the reshaping path is taken exactly when
  \<open>(c mod n) * dim = 0\<close>, that is when \<open>c\<close> is a multiple of \<open>n\<close> or \<open>dim = 0\<close>.  On that path
  \<open>c = 0\<close> raises a division by zero; with \<open>n_ch = n*dim // c\<close>, the call raises a shape
  error before any product when \<open>n_ch = 0\<close> or \<open>n_ch\<close> does not divide \<open>n*dim\<close>; otherwise the
  storage of \<open>x\<close> is read as \<open>n*dim / n_ch\<close> rows of \<open>n_ch\<close> columns and multiplied by \<open>K_t\<close>.
  Off that path \<open>K_t\<close> is multiplied with \<open>x\<close> as it is.  In both cases the storage of the
  product is read in rows of \<open>dim\<close> columns, a shape error if \<open>dim\<close> does not divide its size.
\<close>

theorem message_and_aggregate_branch:
  "(let n = shape0 x; dm = shape1 x; c = shape1 K_t; n_ch = (n * dm) div c;
        finish = (\<lambda>y. if (shape0 y * shape1 y) mod dm \<noteq> 0 then Inl RuntimeError
                       else Inr \<lparr>shape0 = (shape0 y * shape1 y) div dm, shape1 = dm, dat = dat y\<rparr>)
    in (n = 0 \<longrightarrow> message_and_aggregate matmul K_t x = Inl ZeroDivisionError) \<and>
       (0 < n \<longrightarrow>
          ((c mod n) * dm = 0) = (n dvd c \<or> dm = 0) \<and>
          ((c mod n) * dm = 0 \<longrightarrow>
             (c = 0 \<longrightarrow> message_and_aggregate matmul K_t x = Inl ZeroDivisionError) \<and>
             (0 < c \<longrightarrow> n_ch = 0 \<or> \<not> n_ch dvd n * dm \<longrightarrow>
                message_and_aggregate matmul K_t x = Inl RuntimeError) \<and>
             (0 < c \<longrightarrow> 0 < n_ch \<longrightarrow> n_ch dvd n * dm \<longrightarrow>
                message_and_aggregate matmul K_t x
                  = bind_err (matmul K_t \<lparr>shape0 = (n * dm) div n_ch, shape1 = n_ch, dat = dat x\<rparr>)
                      finish)) \<and>
          ((c mod n) * dm \<noteq> 0 \<longrightarrow>
             message_and_aggregate matmul K_t x = bind_err (matmul K_t x) finish)))"
  unfolding Let_def
proof (intro conjI impI)
  assume "shape0 x = 0"
  then show "message_and_aggregate matmul K_t x = Inl ZeroDivisionError"
    by (rule maa_no_rows)
next
  assume "0 < shape0 x"
  then show "((shape1 K_t mod shape0 x) * shape1 x = 0) = (shape0 x dvd shape1 K_t \<or> shape1 x = 0)"
    by (rule test_iff)
next
  assume "0 < shape0 x" "(shape1 K_t mod shape0 x) * shape1 x = 0" "shape1 K_t = 0"
  then show "message_and_aggregate matmul K_t x = Inl ZeroDivisionError"
    by (rule maa_no_cols)
next
  assume "0 < shape0 x" "(shape1 K_t mod shape0 x) * shape1 x = 0" "0 < shape1 K_t"
    "(shape0 x * shape1 x) div shape1 K_t = 0
       \<or> \<not> (shape0 x * shape1 x) div shape1 K_t dvd shape0 x * shape1 x"
  then show "message_and_aggregate matmul K_t x = Inl RuntimeError"
    by (rule maa_bad_view)
next
  assume "0 < shape0 x" "(shape1 K_t mod shape0 x) * shape1 x = 0" "0 < shape1 K_t"
    "0 < (shape0 x * shape1 x) div shape1 K_t"
    "(shape0 x * shape1 x) div shape1 K_t dvd shape0 x * shape1 x"
  then show "message_and_aggregate matmul K_t x
      = bind_err (matmul K_t \<lparr>shape0 = (shape0 x * shape1 x) div ((shape0 x * shape1 x) div shape1 K_t),
                             shape1 = (shape0 x * shape1 x) div shape1 K_t, dat = dat x\<rparr>)
          (\<lambda>y. if (shape0 y * shape1 y) mod shape1 x \<noteq> 0 then Inl RuntimeError
               else Inr \<lparr>shape0 = (shape0 y * shape1 y) div shape1 x, shape1 = shape1 x, dat = dat y\<rparr>)"
    by (rule maa_regroup)
next
  assume "0 < shape0 x" "(shape1 K_t mod shape0 x) * shape1 x \<noteq> 0"
  then show "message_and_aggregate matmul K_t x
      = bind_err (matmul K_t x)
          (\<lambda>y. if (shape0 y * shape1 y) mod shape1 x \<noteq> 0 then Inl RuntimeError
               else Inr \<lparr>shape0 = (shape0 y * shape1 y) div shape1 x, shape1 = shape1 x, dat = dat y\<rparr>)"
    by (rule maa_as_is)
qed

text \<open>
  C4 as stated fails.  A kernel matrix of 8 columns and a signal of 2 rows and 2 columns: 8
  is a multiple of 2, yet the call raises a shape error before any product, since
  \<open>n_ch = 4 // 8 = 0\<close>.  A signal of 2 rows and no column and a kernel matrix of 3 columns:
  3 is not a multiple of 2, yet the call takes the reshaping path and raises there, again
  before the product.
\<close>

theorem message_and_aggregate_multiple_raises:
  "shape0 x22 dvd shape1 K28 \<and>
   message_and_aggregate matmul_raises K28 x22 = Inl RuntimeError \<and>
   message_and_aggregate matmul_second K28 x22 = Inl RuntimeError \<and>
   \<not> shape0 (zeros 2 0) dvd shape1 K23 \<and>
   message_and_aggregate matmul_raises K23 (zeros 2 0) = Inl RuntimeError \<and>
   matmul_raises K23 (zeros 2 0) = Inl TypeError"
  by (simp add: message_and_aggregate_def Let_def py_mod_def py_floordiv_nat_def bind_err_def
        view_cols_def x22_def K28_def K23_def zeros_def matmul_raises_def)

lemma rev_x22:
  "bind_err (matmul_dense K_rev \<lparr>shape0 = 4, shape1 = 1, dat = [1, 2, 3, 4]\<rparr>)
     (\<lambda>y. if (shape0 y * shape1 y) mod 2 \<noteq> 0 then Inl RuntimeError
          else Inr \<lparr>shape0 = (shape0 y * shape1 y) div 2, shape1 = 2, dat = dat y\<rparr>)
     = Inr \<lparr>shape0 = 2, shape1 = 2, dat = [4, 3, 2, 1]\<rparr>"
  by code_simp

lemma rev_x24:
  "bind_err (matmul_dense K_rev \<lparr>shape0 = 4, shape1 = 2, dat = [1, 2, 3, 4, 5, 6, 7, 8]\<rparr>)
     (\<lambda>y. if (shape0 y * shape1 y) mod 4 \<noteq> 0 then Inl RuntimeError
          else Inr \<lparr>shape0 = (shape0 y * shape1 y) div 4, shape1 = 4, dat = dat y\<rparr>)
     = Inr \<lparr>shape0 = 2, shape1 = 4, dat = [7, 8, 5, 6, 3, 4, 1, 2]\<rparr>"
  by code_simp

theorem message_and_aggregate_branch_witness:
  "shape0 (zeros 0 2) = 0 \<and>
   message_and_aggregate matmul_dense K23 (zeros 0 2) = Inl ZeroDivisionError \<and>
   0 < shape0 x22 \<and> shape0 x22 dvd shape1 K_rev \<and>
   message_and_aggregate matmul_dense K_rev x22 = Inr \<lparr>shape0 = 2, shape1 = 2, dat = [4, 3, 2, 1]\<rparr> \<and>
   0 < shape0 x24 \<and> shape0 x24 dvd shape1 K_rev \<and>
   message_and_aggregate matmul_dense K_rev x24
     = Inr \<lparr>shape0 = 2, shape1 = 4, dat = [7, 8, 5, 6, 3, 4, 1, 2]\<rparr> \<and>
   shape0 x22 dvd shape1 K28 \<and>
   message_and_aggregate matmul_dense K28 x22 = Inl RuntimeError \<and>
   shape0 x22 dvd shape1 (zeros 2 0) \<and>
   message_and_aggregate matmul_dense (zeros 2 0) x22 = Inl ZeroDivisionError \<and>
   \<not> shape0 x22 dvd shape1 K23 \<and>
   message_and_aggregate matmul_raises K23 x22 = Inl TypeError \<and>
   message_and_aggregate matmul_second K23 x22 = Inr x22"
proof -
  have a: "message_and_aggregate matmul_dense K23 (zeros 0 2) = Inl ZeroDivisionError"
    using message_and_aggregate_branch [where x = "zeros 0 2" and matmul = matmul_dense and K_t = K23]
    by (simp add: Let_def zeros_def)
  have b: "message_and_aggregate matmul_dense K_rev x22
             = Inr \<lparr>shape0 = 2, shape1 = 2, dat = [4, 3, 2, 1]\<rparr>"
    using message_and_aggregate_branch [where x = x22 and matmul = matmul_dense and K_t = K_rev] rev_x22
    by (simp add: Let_def x22_def K_rev_def)
  have c: "message_and_aggregate matmul_dense K_rev x24
             = Inr \<lparr>shape0 = 2, shape1 = 4, dat = [7, 8, 5, 6, 3, 4, 1, 2]\<rparr>"
    using message_and_aggregate_branch [where x = x24 and matmul = matmul_dense and K_t = K_rev] rev_x24
    by (simp add: Let_def x24_def K_rev_def)
  have d: "message_and_aggregate matmul_dense K28 x22 = Inl RuntimeError"
    using message_and_aggregate_branch [where x = x22 and matmul = matmul_dense and K_t = K28]
    by (simp add: Let_def x22_def K28_def)
  have e: "message_and_aggregate matmul_dense (zeros 2 0) x22 = Inl ZeroDivisionError"
    using message_and_aggregate_branch [where x = x22 and matmul = matmul_dense and K_t = "zeros 2 0"]
    by (simp add: Let_def x22_def zeros_def)
  have f: "message_and_aggregate matmul_raises K23 x22 = Inl TypeError"
    using message_and_aggregate_branch [where x = x22 and matmul = matmul_raises and K_t = K23]
    by (simp add: Let_def x22_def K23_def matmul_raises_def bind_err_def)
  have g: "message_and_aggregate matmul_second K23 x22 = Inr x22"
    using message_and_aggregate_branch [where x = x22 and matmul = matmul_second and K_t = K23]
    by (simp add: Let_def x22_def K23_def matmul_second_def bind_err_def)
  show ?thesis
    using a b c d e f g
    by (simp add: x22_def x24_def K_rev_def K28_def K23_def zeros_def)
qed

lemma view3_rows_mk3:
  "0 < n \<Longrightarrow> view3_rows (mk3 n m l f)
     = Inr \<lparr>shape0 = n, shape1 = m * l, dat = dat3 (mk3 n m l f)\<rparr>"
  by (simp add: view3_rows_def mult.assoc)

text \<open>
  C7.  When the rotation arguments are prepared, the list of kernels is not empty and every
  kernel's aggregate is computed, all with the same number \<open>V > 0\<close> of rows, \<open>forward\<close>
  returns a matrix of \<open>V\<close> rows and \<open>|kernels| * channels_in\<close> columns.  Its column
  \<open>c * |kernels| + k\<close> is column \<open>c\<close> of the aggregate of kernel \<open>k\<close>: the aggregates are
  stacked along a new last axis and each row is flattened.  Three kernels over a signal of
  four channels give twelve columns.
\<close>

theorem AnisoConv_forward_columns:
  assumes rot: "rotate_args edge_index sz R = Inr (Rb, sz', ei')"
    and agg: "those_err (map (apply_kernel to_SparseTensor matmul x Rb sz' ei') (to_list kernels))
                = Inr outs"
    and ne: "to_list kernels \<noteq> []"
    and rows: "\<forall>u\<in>set outs. shape0 u = V"
    and V: "0 < V"
  shows "\<exists>out. AnisoConv_forward to_list to_SparseTensor matmul x edge_index sz kernels R = Inr out \<and>
           shape0 out = V \<and>
           shape1 out = length (to_list kernels) * shape1 x \<and>
           (\<forall>v<V. \<forall>c<shape1 x. \<forall>k<length (to_list kernels).
              at2 out v (c * length (to_list kernels) + k) = at2 (outs ! k) v c)"
proof -
  define ks where "ks = to_list kernels"
  define n where "n = length ks"
  define dm where "dm = shape1 x"
  define o3 where "o3 = mk3 V dm (length outs) (\<lambda>b k j. at2 (outs ! j) b k)"
  define out where "out = \<lparr>shape0 = V, shape1 = dm * n, dat = dat3 o3\<rparr>"
  have nth: "length outs = length (map (apply_kernel to_SparseTensor matmul x Rb sz' ei') ks)"
    "\<forall>i<length (map (apply_kernel to_SparseTensor matmul x Rb sz' ei') ks).
       map (apply_kernel to_SparseTensor matmul x Rb sz' ei') ks ! i = Inr (outs ! i)"
    using those_err_Inr_nth [OF agg] by (simp_all add: ks_def)
  have len: "length outs = n" using nth(1) by (simp add: n_def)
  have npos: "0 < n" using ne by (simp add: n_def ks_def)
  have cols: "shape1 u = dm" if "u \<in> set outs" for u
  proof -
    from that obtain i where i: "i < n" and u: "u = outs ! i"
      by (auto simp: in_set_conv_nth len)
    have "apply_kernel to_SparseTensor matmul x Rb sz' ei' (ks ! i) = Inr (outs ! i)"
      using nth(2) i by (simp add: n_def)
    then show ?thesis unfolding u dm_def by (rule apply_kernel_shape1)
  qed
  have step1: "stack2 outs = Inr o3"
    unfolding o3_def
  proof (rule stack2_same)
    show "outs \<noteq> []" using len npos by auto
    show "\<forall>u\<in>set outs. shape0 u = V \<and> shape1 u = dm" using rows cols by simp
  qed
  have step2: "view3_rows o3 = Inr out"
    unfolding o3_def out_def len using V by (rule view3_rows_mk3)
  have fwd: "AnisoConv_forward to_list to_SparseTensor matmul x edge_index sz kernels R = Inr out"
    using rot agg step1 step2 by (simp add: AnisoConv_forward_def bind_err_def)
  have entry: "at2 out v (c * n + k) = at2 (outs ! k) v c"
    if v: "v < V" and c: "c < dm" and k: "k < n" for v c k
  proof -
    have "at2 out v (c * n + k) = dat3 o3 ! (v * (dm * n) + (c * n + k))"
      by (simp add: at2_def out_def)
    also have "v * (dm * n) + (c * n + k) = (v * dm + c) * n + k"
      by (simp add: algebra_simps)
    also have "dat3 o3 ! ((v * dm + c) * n + k) = at3 o3 v c k"
      by (simp add: at3_def o3_def len)
    also have "\<dots> = at2 (outs ! k) v c"
      unfolding o3_def len using v c k by (rule at3_mk3)
    finally show ?thesis .
  qed
  have "shape0 out = V" "shape1 out = n * dm" by (simp_all add: out_def)
  then show ?thesis
    using fwd entry by (intro exI [of _ out]) (simp add: n_def ks_def dm_def)
qed

lemma outs_ex:
  "those_err (map (apply_kernel to_SparseTensor_ex matmul_dense x24 None (2, 2) [(0, 1), (1, 0)])
                  [K_id, K_swap, K_sum])
     = Inr [\<lparr>shape0 = 2, shape1 = 4, dat = [1, 2, 3, 4, 5, 6, 7, 8]\<rparr>,
            \<lparr>shape0 = 2, shape1 = 4, dat = [5, 6, 7, 8, 1, 2, 3, 4]\<rparr>,
            \<lparr>shape0 = 2, shape1 = 4, dat = [6, 8, 10, 12, 6, 8, 10, 12]\<rparr>]"
  by code_simp

theorem AnisoConv_forward_columns_witness:
  "[K_id, K_swap, K_sum] \<noteq> [] \<and> shape1 x24 = 4 \<and>
   (\<exists>out. AnisoConv_forward (\<lambda>ks. ks) to_SparseTensor_ex matmul_dense x24 [(0, 1), (1, 0)] (2, 2)
             [K_id, K_swap, K_sum] None = Inr out \<and>
          shape0 out = 2 \<and> shape1 out = 12 \<and>
          at2 out 0 0 = 1 \<and> at2 out 0 1 = 5 \<and> at2 out 0 2 = 6 \<and> at2 out 0 3 = 2)"
proof -
  let ?outs = "[\<lparr>shape0 = 2, shape1 = 4, dat = [1, 2, 3, 4, 5, 6, 7, 8]\<rparr>,
                \<lparr>shape0 = 2, shape1 = 4, dat = [5, 6, 7, 8, 1, 2, 3, 4]\<rparr>,
                \<lparr>shape0 = 2, shape1 = 4, dat = [6, 8, 10, 12, 6, 8, 10, 12 :: real]\<rparr>]"
  have "\<exists>out. AnisoConv_forward (\<lambda>ks. ks) to_SparseTensor_ex matmul_dense x24 [(0, 1), (1, 0)] (2, 2)
             [K_id, K_swap, K_sum] None = Inr out \<and>
           shape0 out = 2 \<and>
           shape1 out = length [K_id, K_swap, K_sum] * shape1 x24 \<and>
           (\<forall>v<2. \<forall>c<shape1 x24. \<forall>k<length [K_id, K_swap, K_sum].
              at2 out v (c * length [K_id, K_swap, K_sum] + k) = at2 (?outs ! k) v c)"
  proof (rule AnisoConv_forward_columns)
    show "rotate_args [(0, 1), (1, 0)] (2, 2) None = Inr (None, (2, 2), [(0, 1), (1, 0)])"
      by (simp add: rotate_args_def)
    show "those_err (map (apply_kernel to_SparseTensor_ex matmul_dense x24 None (2, 2) [(0, 1), (1, 0)])
            [K_id, K_swap, K_sum]) = Inr ?outs"
      by (rule outs_ex)
    show "[K_id, K_swap, K_sum] \<noteq> []" by simp
    show "\<forall>u\<in>set ?outs. shape0 u = 2" by simp
    show "(0::nat) < 2" by simp
  qed
  then obtain out where
    r: "AnisoConv_forward (\<lambda>ks. ks) to_SparseTensor_ex matmul_dense x24 [(0, 1), (1, 0)] (2, 2)
             [K_id, K_swap, K_sum] None = Inr out" "shape0 out = 2"
       "shape1 out = length [K_id, K_swap, K_sum] * shape1 x24"
    and e: "\<forall>v<2. \<forall>c<shape1 x24. \<forall>k<length [K_id, K_swap, K_sum].
              at2 out v (c * length [K_id, K_swap, K_sum] + k) = at2 (?outs ! k) v c"
    by (elim exE conjE)
  have sh: "shape1 x24 = 4" by (simp add: x24_def)
  have e0: "at2 out 0 0 = 1" using e [rule_format, of 0 0 0] by (simp add: sh at2_def)
  have e1: "at2 out 0 1 = 5" using e [rule_format, of 0 0 1] by (simp add: sh at2_def)
  have e2: "at2 out 0 2 = 6" using e [rule_format, of 0 0 2] by (simp add: sh at2_def)
  have e3: "at2 out 0 3 = 2" using e [rule_format, of 0 1 0] by (simp add: sh at2_def numeral_3_eq_3)
  show ?thesis
    using r sh e0 e1 e2 e3 by (intro conjI exI [of _ out]) simp_all
qed

end
